theory Spec2Isabelle
  imports Main "HOL-Library.Signed_Division"
begin

section \<open>Errors and JavaScript primitives\<close>

text \<open>
  Every \<^verbatim>\<open>throw\<close> of the sources is a value of this type. The repository throws plain
  \<^verbatim>\<open>Error\<close> objects that differ in their message only; each constructor names one message
  (the names follow the error taxonomy of the specification). \<open>RangeError\<close> is the error
  the JavaScript runtime itself raises on a \<^verbatim>\<open>BigInt\<close> conversion or division.
\<close>

datatype error =
    UnsupportedNetwork int
  | NoHealthyEndpoint string
  | ClientCreationFailed string
  | CatalogUnavailable
  | NativeBalanceFailed
  | MulticallFailed int
  | BatchExhausted nat
  | DecodeSkipped
  | RangeError

text \<open>
  \<^verbatim>\<open>Array.prototype.slice(start, end)\<close> for non-negative indices: the elements at positions
  \<open>start \<le> p < min end (length xs)\<close>; empty when \<open>end \<le> start\<close> or \<open>start\<close> is past the end.
\<close>

definition slice :: "'a list \<Rightarrow> nat \<Rightarrow> nat \<Rightarrow> 'a list" where
  "slice xs start end = take (end - start) (drop start xs)"

text \<open>\<^verbatim>\<open>BigInt.prototype.toString()\<close>: decimal digits, a leading minus sign for negatives.\<close>

definition digit_char :: "nat \<Rightarrow> char" where
  "digit_char d = ''0123456789'' ! d"

function nat_toString :: "nat \<Rightarrow> string" where
  "nat_toString n =
     (if n < 10 then [digit_char n]
      else nat_toString (n div 10) @ [digit_char (n mod 10)])"
  by pat_completeness auto
termination
  by (relation "measure id") auto

declare nat_toString.simps [simp del]

definition bigint_toString :: "int \<Rightarrow> string" where
  "bigint_toString b =
     (if b < 0 then CHR ''-'' # nat_toString (nat (- b)) else nat_toString (nat b))"

text \<open>\<^verbatim>\<open>s.padStart(n, '0')\<close> and \<^verbatim>\<open>s.replace(/0+$/, '')\<close>.\<close>

definition padStart0 :: "string \<Rightarrow> nat \<Rightarrow> string" where
  "padStart0 s n = replicate (n - length s) CHR ''0'' @ s"

definition trimTrailingZeros :: "string \<Rightarrow> string" where
  "trimTrailingZeros s = rev (dropWhile (\<lambda>c. c = CHR ''0'') (rev s))"

text \<open>
  \<^verbatim>\<open>BigInt(10 ** decimals)\<close>. The power is computed in IEEE double precision and then
  converted. For \<open>0 \<le> decimals \<le> 22\<close> the double is the exact power of ten. For
  \<open>22 < decimals \<le> 308\<close> it is a rounded value, which is not modelled here: the integer
  it converts to is the parameter \<open>dbl\<close>. A negative \<open>decimals\<close> gives a fraction and a
  \<open>decimals\<close> above 308 gives \<^verbatim>\<open>Infinity\<close>; \<^verbatim>\<open>BigInt\<close> raises \<^verbatim>\<open>RangeError\<close> on both.
\<close>

definition bigint_pow10 :: "(nat \<Rightarrow> int) \<Rightarrow> int \<Rightarrow> error + int" where
  "bigint_pow10 dbl decimals =
     (if decimals < 0 then Inl RangeError
      else if decimals \<le> 22 then Inr (10 ^ nat decimals)
      else if decimals \<le> 308 then Inr (dbl (nat decimals))
      else Inl RangeError)"

section \<open>Multicall3Service: balance formatting\<close>

text \<open>
  \<^verbatim>\<open>formatTokenBalance (balance: bigint, decimals: number)\<close>. BigInt division truncates
  towards zero and the remainder takes the sign of the dividend (\<open>sdiv\<close>, \<open>smod\<close>);
  division by \<open>0n\<close> raises \<^verbatim>\<open>RangeError\<close>.
\<close>

definition formatTokenBalance :: "(nat \<Rightarrow> int) \<Rightarrow> int \<Rightarrow> int \<Rightarrow> error + string" where
  "formatTokenBalance dbl balance decimals =
     (case bigint_pow10 dbl decimals of
        Inl e \<Rightarrow> Inl e
      | Inr divisor \<Rightarrow>
          if divisor = 0 then Inl RangeError
          else
            let wholePart = balance sdiv divisor;
                fractionalPart = balance smod divisor
            in if fractionalPart = 0 then Inr (bigint_toString wholePart)
               else
                 let fractionalStr = padStart0 (bigint_toString fractionalPart) (nat decimals);
                     trimmedFractional = trimTrailingZeros fractionalStr
                 in if trimmedFractional = [] then Inr (bigint_toString wholePart)
                    else Inr (bigint_toString wholePart @ ''.'' @ trimmedFractional))"

definition formatNativeBalance :: "(nat \<Rightarrow> int) \<Rightarrow> int \<Rightarrow> int \<Rightarrow> error + string" where
  "formatNativeBalance dbl balance decimals = formatTokenBalance dbl balance decimals"

section \<open>Network registry\<close>

text \<open>
  \<^verbatim>\<open>NetworkConfig\<close>. The \<^verbatim>\<open>chain\<close> field (a chain object of the RPC library, handed
  unchanged to the client constructor) is left out.
\<close>

record NativeCurrency =
  cur_name :: string
  cur_symbol :: string
  cur_decimals :: int

record NetworkConfig =
  cfg_chainId :: int
  cfg_name :: string
  cfg_rpcUrls :: "string list"
  cfg_multicallAddress :: string
  cfg_nativeCurrency :: NativeCurrency

text \<open>The table \<^verbatim>\<open>RPCManager.networkConfigs\<close>, in the order of the source.\<close>

definition networkConfigs :: "NetworkConfig list" where
  "networkConfigs = [
    \<lparr>cfg_chainId = 1, cfg_name = ''Ethereum'',
      cfg_rpcUrls =
        [''https://ethereum-rpc.publicnode.com'',
         ''https://eth.drpc.org'',
         ''https://rpc.ankr.com/eth'',
         ''https://eth.llamarpc.com'',
         ''https://rpc.flashbots.net'',
         ''https://eth.blockscout.com'',
         ''https://ethereum.publicnode.com'',
         ''https://eth-mainnet.g.alchemy.com/v2/demo''],
      cfg_multicallAddress = ''0xcA11bde05977b3631167028862bE2a173976CA11'',
      cfg_nativeCurrency = \<lparr>cur_name = ''ETH'', cur_symbol = ''ETH'', cur_decimals = 18\<rparr>\<rparr>,
    \<lparr>cfg_chainId = 10, cfg_name = ''Optimism'',
      cfg_rpcUrls =
        [''https://optimism-rpc.publicnode.com'',
         ''https://optimism.drpc.org''],
      cfg_multicallAddress = ''0xcA11bde05977b3631167028862bE2a173976CA11'',
      cfg_nativeCurrency = \<lparr>cur_name = ''ETH'', cur_symbol = ''ETH'', cur_decimals = 18\<rparr>\<rparr>,
    \<lparr>cfg_chainId = 14, cfg_name = ''Flare'',
      cfg_rpcUrls =
        [''https://flare-api.flare.network/ext/C/rpc'',
         ''https://rpc.ankr.com/flare'',
         ''https://flare.rpc.thirdweb.com''],
      cfg_multicallAddress = ''0xcA11bde05977b3631167028862bE2a173976CA11'',
      cfg_nativeCurrency = \<lparr>cur_name = ''Flare'', cur_symbol = ''FLR'', cur_decimals = 18\<rparr>\<rparr>,
    \<lparr>cfg_chainId = 25, cfg_name = ''Cronos'',
      cfg_rpcUrls =
        [''https://evm.cronos.org'',
         ''https://cronos.drpc.org'',
         ''https://endpoints.omniatech.io/v1/cronos/mainnet/public''],
      cfg_multicallAddress = ''0xcA11bde05977b3631167028862bE2a173976CA11'',
      cfg_nativeCurrency = \<lparr>cur_name = ''CRO'', cur_symbol = ''CRO'', cur_decimals = 18\<rparr>\<rparr>,
    \<lparr>cfg_chainId = 30, cfg_name = ''Rootstock'',
      cfg_rpcUrls =
        [''https://public-node.rsk.co'',
         ''https://mycrypto.rsk.co'',
         ''https://rootstock.drpc.org''],
      cfg_multicallAddress = ''0xcA11bde05977b3631167028862bE2a173976CA11'',
      cfg_nativeCurrency = \<lparr>cur_name = ''Rootstock Smart Bitcoin'', cur_symbol = ''RBTC'', cur_decimals = 18\<rparr>\<rparr>,
    \<lparr>cfg_chainId = 50, cfg_name = ''XDC'',
      cfg_rpcUrls =
        [''https://rpc.xdcrpc.com'',
         ''https://erpc.xdcrpc.com'',
         ''https://rpc1.xinfin.network''],
      cfg_multicallAddress = ''0x0b1795cca8e4ec4df02346a082df54d437f8d9af'',
      cfg_nativeCurrency = \<lparr>cur_name = ''XDC'', cur_symbol = ''XDC'', cur_decimals = 18\<rparr>\<rparr>,
    \<lparr>cfg_chainId = 56, cfg_name = ''BSC'',
      cfg_rpcUrls =
        [''https://bsc-dataseed.binance.org'',
         ''https://bsc-dataseed.bnbchain.org'',
         ''https://bsc-rpc.publicnode.com'',
         ''https://bsc-dataseed1.defibit.io'',
         ''https://bsc-dataseed1.ninicoin.io'',
         ''https://bsc.drpc.org'',
         ''https://rpc.ankr.com/bsc'',
         ''https://bsc.llamarpc.com''],
      cfg_multicallAddress = ''0xcA11bde05977b3631167028862bE2a173976CA11'',
      cfg_nativeCurrency = \<lparr>cur_name = ''BNB'', cur_symbol = ''BNB'', cur_decimals = 18\<rparr>\<rparr>,
    \<lparr>cfg_chainId = 100, cfg_name = ''Gnosis'',
      cfg_rpcUrls =
        [''https://rpc.gnosischain.com'',
         ''https://gnosis-rpc.publicnode.com'',
         ''https://gnosis.drpc.org''],
      cfg_multicallAddress = ''0xcA11bde05977b3631167028862bE2a173976CA11'',
      cfg_nativeCurrency = \<lparr>cur_name = ''xDAI Native Token'', cur_symbol = ''xDAI'', cur_decimals = 18\<rparr>\<rparr>,
    \<lparr>cfg_chainId = 122, cfg_name = ''FUSE'',
      cfg_rpcUrls =
        [''https://rpc.fuse.io'',
         ''https://fuse.drpc.org'',
         ''https://fuse-public.nodies.app''],
      cfg_multicallAddress = ''0xcA11bde05977b3631167028862bE2a173976CA11'',
      cfg_nativeCurrency = \<lparr>cur_name = ''FUSE'', cur_symbol = ''FUSE'', cur_decimals = 18\<rparr>\<rparr>,
    \<lparr>cfg_chainId = 130, cfg_name = ''Unichain'',
      cfg_rpcUrls =
        [''https://mainnet.unichain.org'',
         ''https://unichain.drpc.org'',
         ''https://unichain-rpc.publicnode.com''],
      cfg_multicallAddress = ''0xcA11bde05977b3631167028862bE2a173976CA11'',
      cfg_nativeCurrency = \<lparr>cur_name = ''ETH'', cur_symbol = ''ETH'', cur_decimals = 18\<rparr>\<rparr>,
    \<lparr>cfg_chainId = 137, cfg_name = ''Polygon'',
      cfg_rpcUrls =
        [''https://polygon-bor-rpc.publicnode.com'',
         ''https://polygon.drpc.org'',
         ''https://polygon-rpc.com'',
         ''https://rpc-mainnet.maticvigil.com'',
         ''https://rpc.ankr.com/polygon'',
         ''https://polygon.llamarpc.com'',
         ''https://polygon-rpc.com'',
         ''https://matic-mainnet.chainstacklabs.com''],
      cfg_multicallAddress = ''0xcA11bde05977b3631167028862bE2a173976CA11'',
      cfg_nativeCurrency = \<lparr>cur_name = ''Polygon Ecosystem Token'', cur_symbol = ''POL'', cur_decimals = 18\<rparr>\<rparr>,
    \<lparr>cfg_chainId = 146, cfg_name = ''Sonic'',
      cfg_rpcUrls =
        [''https://rpc.soniclabs.com'',
         ''https://sonic.drpc.org''],
      cfg_multicallAddress = ''0xcA11bde05977b3631167028862bE2a173976CA11'',
      cfg_nativeCurrency = \<lparr>cur_name = ''S'', cur_symbol = ''S'', cur_decimals = 18\<rparr>\<rparr>,
    \<lparr>cfg_chainId = 204, cfg_name = ''opBNB'',
      cfg_rpcUrls =
        [''https://opbnb-mainnet-rpc.bnbchain.org'',
         ''https://1rpc.io/opbnb''],
      cfg_multicallAddress = ''0xcA11bde05977b3631167028862bE2a173976CA11'',
      cfg_nativeCurrency = \<lparr>cur_name = ''BNB'', cur_symbol = ''BNB'', cur_decimals = 18\<rparr>\<rparr>,
    \<lparr>cfg_chainId = 232, cfg_name = ''Lens'',
      cfg_rpcUrls =
        [''https://api.lens.matterhosted.dev''],
      cfg_multicallAddress = ''0xeee5a340Cdc9c179Db25dea45AcfD5FE8d4d3eB8'',
      cfg_nativeCurrency = \<lparr>cur_name = ''GHO'', cur_symbol = ''GHO'', cur_decimals = 18\<rparr>\<rparr>,
    \<lparr>cfg_chainId = 250, cfg_name = ''Fantom'',
      cfg_rpcUrls =
        [''https://rpcapi.fantom.network'',
         ''https://rpc.fantom.network'',
         ''https://fantom-rpc.publicnode.com'',
         ''https://fantom.drpc.org''],
      cfg_multicallAddress = ''0xcA11bde05977b3631167028862bE2a173976CA11'',
      cfg_nativeCurrency = \<lparr>cur_name = ''FTM'', cur_symbol = ''FTM'', cur_decimals = 18\<rparr>\<rparr>,
    \<lparr>cfg_chainId = 252, cfg_name = ''Fraxtal'',
      cfg_rpcUrls =
        [''https://rpc.frax.com''],
      cfg_multicallAddress = ''0xcA11bde05977b3631167028862bE2a173976CA11'',
      cfg_nativeCurrency = \<lparr>cur_name = ''FRAX'', cur_symbol = ''FRAX'', cur_decimals = 18\<rparr>\<rparr>,
    \<lparr>cfg_chainId = 288, cfg_name = ''Boba'',
      cfg_rpcUrls =
        [''https://mainnet.boba.network'',
         ''https://replica.boba.network''],
      cfg_multicallAddress = ''0xcA11bde05977b3631167028862bE2a173976CA11'',
      cfg_nativeCurrency = \<lparr>cur_name = ''ETH'', cur_symbol = ''ETH'', cur_decimals = 18\<rparr>\<rparr>,
    \<lparr>cfg_chainId = 324, cfg_name = ''zkSync'',
      cfg_rpcUrls =
        [''https://mainnet.era.zksync.io''],
      cfg_multicallAddress = ''0xF9cda624FBC7e059355ce98a31693d299FACd963'',
      cfg_nativeCurrency = \<lparr>cur_name = ''ETH'', cur_symbol = ''ETH'', cur_decimals = 18\<rparr>\<rparr>,
    \<lparr>cfg_chainId = 480, cfg_name = ''World Chain'',
      cfg_rpcUrls =
        [''https://worldchain-mainnet.g.alchemy.com/public'',
         ''https://worldchain-mainnet.gateway.tenderly.co''],
      cfg_multicallAddress = ''0xcA11bde05977b3631167028862bE2a173976CA11'',
      cfg_nativeCurrency = \<lparr>cur_name = ''ETH'', cur_symbol = ''ETH'', cur_decimals = 18\<rparr>\<rparr>,
    \<lparr>cfg_chainId = 999, cfg_name = ''HyperEVM'',
      cfg_rpcUrls =
        [''https://rpc.hyperliquid.xyz/evm'',
         ''https://rpc.hyperlend.finance'',
         ''https://hyperliquid-json-rpc.stakely.io'',
         ''https://hyperliquid.drpc.org''],
      cfg_multicallAddress = ''0xcA11bde05977b3631167028862bE2a173976CA11'',
      cfg_nativeCurrency = \<lparr>cur_name = ''HYPE'', cur_symbol = ''HYPE'', cur_decimals = 18\<rparr>\<rparr>,
    \<lparr>cfg_chainId = 1088, cfg_name = ''Metis'',
      cfg_rpcUrls =
        [''https://andromeda.metis.io'',
         ''https://metis.drpc.org''],
      cfg_multicallAddress = ''0xcA11bde05977b3631167028862bE2a173976CA11'',
      cfg_nativeCurrency = \<lparr>cur_name = ''METIS'', cur_symbol = ''METIS'', cur_decimals = 18\<rparr>\<rparr>,
    \<lparr>cfg_chainId = 1101, cfg_name = ''Polygon zkEVM'',
      cfg_rpcUrls =
        [''https://zkevm-rpc.com'',
         ''https://polygon-zkevm.drpc.org''],
      cfg_multicallAddress = ''0xcA11bde05977b3631167028862bE2a173976CA11'',
      cfg_nativeCurrency = \<lparr>cur_name = ''ETH'', cur_symbol = ''ETH'', cur_decimals = 18\<rparr>\<rparr>,
    \<lparr>cfg_chainId = 1135, cfg_name = ''Lisk'',
      cfg_rpcUrls =
        [''https://rpc.api.lisk.com'',
         ''https://lisk.drpc.org''],
      cfg_multicallAddress = ''0xcA11bde05977b3631167028862bE2a173976CA11'',
      cfg_nativeCurrency = \<lparr>cur_name = ''ETH'', cur_symbol = ''ETH'', cur_decimals = 18\<rparr>\<rparr>,
    \<lparr>cfg_chainId = 1284, cfg_name = ''Moonbeam'',
      cfg_rpcUrls =
        [''https://rpc.api.moonbeam.network'',
         ''https://moonbeam-rpc.publicnode.com'',
         ''https://moonbeam.drpc.org''],
      cfg_multicallAddress = ''0xcA11bde05977b3631167028862bE2a173976CA11'',
      cfg_nativeCurrency = \<lparr>cur_name = ''GLMR'', cur_symbol = ''GLMR'', cur_decimals = 18\<rparr>\<rparr>,
    \<lparr>cfg_chainId = 1285, cfg_name = ''Moonriver'',
      cfg_rpcUrls =
        [''https://rpc.api.moonriver.moonbeam.network'',
         ''https://moonriver-rpc.publicnode.com'',
         ''https://moonriver.drpc.org''],
      cfg_multicallAddress = ''0xcA11bde05977b3631167028862bE2a173976CA11'',
      cfg_nativeCurrency = \<lparr>cur_name = ''MOVR'', cur_symbol = ''MOVR'', cur_decimals = 18\<rparr>\<rparr>,
    \<lparr>cfg_chainId = 1329, cfg_name = ''Sei'',
      cfg_rpcUrls =
        [''https://evm-rpc.sei-apis.com''],
      cfg_multicallAddress = ''0xcA11bde05977b3631167028862bE2a173976CA11'',
      cfg_nativeCurrency = \<lparr>cur_name = ''SEI'', cur_symbol = ''SEI'', cur_decimals = 18\<rparr>\<rparr>,
    \<lparr>cfg_chainId = 999, cfg_name = ''Hyperliquid'',
      cfg_rpcUrls =
        [''https://hyperliquid.drpc.org'',
         ''https://rpc.hyperliquid.xyz/evm'',
         ''https://hyperliquid-json-rpc.stakely.io''],
      cfg_multicallAddress = '''',
      cfg_nativeCurrency = \<lparr>cur_name = ''USD Coin (Perps)'', cur_symbol = ''USDC'', cur_decimals = 6\<rparr>\<rparr>,
    \<lparr>cfg_chainId = 1480, cfg_name = ''Vana'',
      cfg_rpcUrls =
        [''https://rpc.vana.org''],
      cfg_multicallAddress = ''0xD8d2dFca27E8797fd779F8547166A2d3B29d360E'',
      cfg_nativeCurrency = \<lparr>cur_name = ''Vana'', cur_symbol = ''VAN'', cur_decimals = 18\<rparr>\<rparr>,
    \<lparr>cfg_chainId = 1625, cfg_name = ''Gravity'',
      cfg_rpcUrls =
        [''https://rpc.ankr.com/gravity''],
      cfg_multicallAddress = ''0xcA11bde05977b3631167028862bE2a173976CA11'',
      cfg_nativeCurrency = \<lparr>cur_name = ''G'', cur_symbol = ''G'', cur_decimals = 18\<rparr>\<rparr>,
    \<lparr>cfg_chainId = 1868, cfg_name = ''Soneium'',
      cfg_rpcUrls =
        [''https://soneium-mainnet.blastapi.io/0e189c72-1523-48e1-8727-7dd520f19c1f''],
      cfg_multicallAddress = ''0xcA11bde05977b3631167028862bE2a173976CA11'',
      cfg_nativeCurrency = \<lparr>cur_name = ''ETH'', cur_symbol = ''ETH'', cur_decimals = 18\<rparr>\<rparr>,
    \<lparr>cfg_chainId = 1923, cfg_name = ''Swellchain'',
      cfg_rpcUrls =
        [''https://swell-mainnet.alt.technology''],
      cfg_multicallAddress = ''0xcA11bde05977b3631167028862bE2a173976CA11'',
      cfg_nativeCurrency = \<lparr>cur_name = ''ETH'', cur_symbol = ''ETH'', cur_decimals = 18\<rparr>\<rparr>,
    \<lparr>cfg_chainId = 2741, cfg_name = ''Abstract'',
      cfg_rpcUrls =
        [''https://api.mainnet.abs.xyz''],
      cfg_multicallAddress = ''0xAa4De41dba0Ca5dCBb288b7cC6b708F3aaC759E7'',
      cfg_nativeCurrency = \<lparr>cur_name = ''ETH'', cur_symbol = ''ETH'', cur_decimals = 18\<rparr>\<rparr>,
    \<lparr>cfg_chainId = 5000, cfg_name = ''Mantle'',
      cfg_rpcUrls =
        [''https://rpc.mantle.xyz'',
         ''https://mantle-rpc.publicnode.com'',
         ''https://mantle.drpc.org'',
         ''https://mantle.public-rpc.com''],
      cfg_multicallAddress = ''0xcA11bde05977b3631167028862bE2a173976CA11'',
      cfg_nativeCurrency = \<lparr>cur_name = ''MNT'', cur_symbol = ''MNT'', cur_decimals = 18\<rparr>\<rparr>,
    \<lparr>cfg_chainId = 8217, cfg_name = ''Kaia'',
      cfg_rpcUrls =
        [''https://public-en.node.kaia.io'',
         ''https://klaytn.drpc.org''],
      cfg_multicallAddress = ''0xcA11bde05977b3631167028862bE2a173976CA11'',
      cfg_nativeCurrency = \<lparr>cur_name = ''KAIA'', cur_symbol = ''KAIA'', cur_decimals = 18\<rparr>\<rparr>,
    \<lparr>cfg_chainId = 8453, cfg_name = ''Base'',
      cfg_rpcUrls =
        [''https://mainnet.base.org'',
         ''https://base-rpc.publicnode.com'',
         ''https://base.drpc.org''],
      cfg_multicallAddress = ''0xcA11bde05977b3631167028862bE2a173976CA11'',
      cfg_nativeCurrency = \<lparr>cur_name = ''ETH'', cur_symbol = ''ETH'', cur_decimals = 18\<rparr>\<rparr>,
    \<lparr>cfg_chainId = 13371, cfg_name = ''Immutable zkEVM'',
      cfg_rpcUrls =
        [''https://rpc.immutable.com/'',
         ''https://immutable-zkevm.drpc.org''],
      cfg_multicallAddress = ''0xcA11bde05977b3631167028862bE2a173976CA11'',
      cfg_nativeCurrency = \<lparr>cur_name = ''IMX'', cur_symbol = ''IMX'', cur_decimals = 18\<rparr>\<rparr>,
    \<lparr>cfg_chainId = 33139, cfg_name = ''Apechain'',
      cfg_rpcUrls =
        [''https://rpc.apechain.com''],
      cfg_multicallAddress = ''0xcA11bde05977b3631167028862bE2a173976CA11'',
      cfg_nativeCurrency = \<lparr>cur_name = ''APE'', cur_symbol = ''APE'', cur_decimals = 18\<rparr>\<rparr>,
    \<lparr>cfg_chainId = 34443, cfg_name = ''Mode'',
      cfg_rpcUrls =
        [''https://mode.drpc.org''],
      cfg_multicallAddress = ''0xcA11bde05977b3631167028862bE2a173976CA11'',
      cfg_nativeCurrency = \<lparr>cur_name = ''ETH'', cur_symbol = ''ETH'', cur_decimals = 18\<rparr>\<rparr>,
    \<lparr>cfg_chainId = 42161, cfg_name = ''Arbitrum'',
      cfg_rpcUrls =
        [''https://arb1.arbitrum.io/rpc'',
         ''https://arbitrum-one-rpc.publicnode.com'',
         ''https://arbitrum.drpc.org'',
         ''https://rpc.ankr.com/arbitrum'',
         ''https://arbitrum.llamarpc.com'',
         ''https://arbitrum-one.publicnode.com'',
         ''https://arbitrum-mainnet.infura.io/v3/9aa3d95b3bc440fa88ea12eaa4456161''],
      cfg_multicallAddress = ''0xcA11bde05977b3631167028862bE2a173976CA11'',
      cfg_nativeCurrency = \<lparr>cur_name = ''ETH'', cur_symbol = ''ETH'', cur_decimals = 18\<rparr>\<rparr>,
    \<lparr>cfg_chainId = 42220, cfg_name = ''Celo'',
      cfg_rpcUrls =
        [''https://celo.drpc.org''],
      cfg_multicallAddress = ''0xcA11bde05977b3631167028862bE2a173976CA11'',
      cfg_nativeCurrency = \<lparr>cur_name = ''Celo native asset'', cur_symbol = ''CELO'', cur_decimals = 18\<rparr>\<rparr>,
    \<lparr>cfg_chainId = 42793, cfg_name = ''Etherlink'',
      cfg_rpcUrls =
        [''https://node.mainnet.etherlink.com''],
      cfg_multicallAddress = ''0xcA11bde05977b3631167028862bE2a173976CA11'',
      cfg_nativeCurrency = \<lparr>cur_name = ''Tezos'', cur_symbol = ''XTZ'', cur_decimals = 18\<rparr>\<rparr>,
    \<lparr>cfg_chainId = 43114, cfg_name = ''Avalanche'',
      cfg_rpcUrls =
        [''https://api.avax.network/ext/bc/C/rpc'',
         ''https://avalanche-c-chain-rpc.publicnode.com'',
         ''https://avalanche.drpc.org''],
      cfg_multicallAddress = ''0xcA11bde05977b3631167028862bE2a173976CA11'',
      cfg_nativeCurrency = \<lparr>cur_name = ''AVAX'', cur_symbol = ''AVAX'', cur_decimals = 18\<rparr>\<rparr>,
    \<lparr>cfg_chainId = 57073, cfg_name = ''Ink'',
      cfg_rpcUrls =
        [''https://rpc-gel.inkonchain.com''],
      cfg_multicallAddress = ''0xcA11bde05977b3631167028862bE2a173976CA11'',
      cfg_nativeCurrency = \<lparr>cur_name = ''ETH'', cur_symbol = ''ETH'', cur_decimals = 18\<rparr>\<rparr>,
    \<lparr>cfg_chainId = 59144, cfg_name = ''Linea'',
      cfg_rpcUrls =
        [''https://rpc.linea.build''],
      cfg_multicallAddress = ''0xcA11bde05977b3631167028862bE2a173976CA11'',
      cfg_nativeCurrency = \<lparr>cur_name = ''ETH'', cur_symbol = ''ETH'', cur_decimals = 18\<rparr>\<rparr>,
    \<lparr>cfg_chainId = 80094, cfg_name = ''Berachain'',
      cfg_rpcUrls =
        [''https://rpc.berachain.com''],
      cfg_multicallAddress = ''0xcA11bde05977b3631167028862bE2a173976CA11'',
      cfg_nativeCurrency = \<lparr>cur_name = ''BERA'', cur_symbol = ''BERA'', cur_decimals = 18\<rparr>\<rparr>,
    \<lparr>cfg_chainId = 81457, cfg_name = ''Blast'',
      cfg_rpcUrls =
        [''https://rpc.blast.io'',
         ''https://blast-rpc.publicnode.com'',
         ''https://blast.drpc.org''],
      cfg_multicallAddress = ''0xcA11bde05977b3631167028862bE2a173976CA11'',
      cfg_nativeCurrency = \<lparr>cur_name = ''ETH'', cur_symbol = ''ETH'', cur_decimals = 18\<rparr>\<rparr>,
    \<lparr>cfg_chainId = 167000, cfg_name = ''Taiko'',
      cfg_rpcUrls =
        [''https://rpc.mainnet.taiko.xyz'',
         ''https://rpc.taiko.xyz''],
      cfg_multicallAddress = ''0xcA11bde05977b3631167028862bE2a173976CA11'',
      cfg_nativeCurrency = \<lparr>cur_name = ''ETH'', cur_symbol = ''ETH'', cur_decimals = 18\<rparr>\<rparr>,
    \<lparr>cfg_chainId = 534352, cfg_name = ''Scroll'',
      cfg_rpcUrls =
        [''https://rpc.scroll.io'',
         ''https://scroll.drpc.org'',
         ''https://scroll-mainnet.public.blastapi.io'',
         ''https://1rpc.io/scroll''],
      cfg_multicallAddress = ''0xcA11bde05977b3631167028862bE2a173976CA11'',
      cfg_nativeCurrency = \<lparr>cur_name = ''ETH'', cur_symbol = ''ETH'', cur_decimals = 18\<rparr>\<rparr>,
    \<lparr>cfg_chainId = 747474, cfg_name = ''Katana'',
      cfg_rpcUrls =
        [''https://rpc.katana.network''],
      cfg_multicallAddress = ''0xcA11bde05977b3631167028862bE2a173976CA11'',
      cfg_nativeCurrency = \<lparr>cur_name = ''ETH'', cur_symbol = ''ETH'', cur_decimals = 18\<rparr>\<rparr>,
    \<lparr>cfg_chainId = 21000000, cfg_name = ''Corn'',
      cfg_rpcUrls =
        [''https://mainnet.corn-rpc.com''],
      cfg_multicallAddress = ''0xcA11bde05977b3631167028862bE2a173976CA11'',
      cfg_nativeCurrency = \<lparr>cur_name = ''Bitcorn'', cur_symbol = ''BTCN'', cur_decimals = 18\<rparr>\<rparr>,
    \<lparr>cfg_chainId = 1313161554, cfg_name = ''Aurora'',
      cfg_rpcUrls =
        [''https://mainnet.aurora.dev''],
      cfg_multicallAddress = ''0xcA11bde05977b3631167028862bE2a173976CA11'',
      cfg_nativeCurrency = \<lparr>cur_name = ''AETH'', cur_symbol = ''AETH'', cur_decimals = 18\<rparr>\<rparr>]"

text \<open>
  \<^verbatim>\<open>getNetworkConfig\<close>: \<^verbatim>\<open>configs.find(c => c.chainId === chainId) || null\<close>, over a given
  table and over the table of the source. \<^verbatim>\<open>Array.prototype.find\<close> returns the first element
  that satisfies the predicate.
\<close>

definition getNetworkConfigIn :: "NetworkConfig list \<Rightarrow> int \<Rightarrow> NetworkConfig option" where
  "getNetworkConfigIn configs chainId = find (\<lambda>config. cfg_chainId config = chainId) configs"

definition getNetworkConfig :: "int \<Rightarrow> NetworkConfig option" where
  "getNetworkConfig chainId = getNetworkConfigIn networkConfigs chainId"

definition getSupportedChainIds :: "int list" where
  "getSupportedChainIds = map cfg_chainId networkConfigs"


section \<open>Data of the token catalog, the batching contract and the results\<close>

text \<open>\<^verbatim>\<open>TokenInfo\<close> (token-list-manager).\<close>

record TokenInfo =
  tok_chainId :: int
  tok_address :: string
  tok_symbol :: string
  tok_name :: string
  tok_decimals :: int
  tok_priceUSD :: string
  tok_coinKey :: string
  tok_logoURI :: "string option"

text \<open>
  \<^verbatim>\<open>Call3\<close> and \<^verbatim>\<open>MulticallResult\<close>. The call payload is produced by the ABI encoder of
  the RPC library; it is kept symbolic: the only payload the service builds is
  \<^verbatim>\<open>balanceOf(walletAddress)\<close>.
\<close>

datatype calldata = BalanceOfCall string

record Call3 =
  call_target :: string
  call_allowFailure :: bool
  call_callData :: calldata

record MulticallResult =
  res_success :: bool
  res_returnData :: string

text \<open>
  \<^verbatim>\<open>BalanceResult\<close>, \<^verbatim>\<open>NativeBalanceResult\<close>, \<^verbatim>\<open>NetworkBalanceResult\<close> and
  \<^verbatim>\<open>AllNetworksBalanceResult\<close>. USD values are JavaScript doubles; their type is the
  parameter \<open>'u\<close>, of which only the constant \<open>0\<close>, the operations \<open>+\<close>, \<open>*\<close> and the
  comparison \<open>\<le>\<close> are used and no law is assumed.
\<close>

record 'u BalanceResult =
  bal_address :: string
  bal_symbol :: string
  bal_name :: string
  bal_balance :: int
  bal_balanceFormatted :: string
  bal_decimals :: int
  bal_usdValue :: 'u
  bal_priceUSD :: string

record 'u NativeBalanceResult =
  nat_balance :: int
  nat_balanceFormatted :: string
  nat_symbol :: string
  nat_usdValue :: 'u

record 'u NetworkBalanceResult =
  net_chainId :: int
  net_networkName :: string
  net_walletAddress :: string
  net_nativeBalance :: "'u NativeBalanceResult"
  net_tokenBalances :: "'u BalanceResult list"
  net_totalUsdValue :: 'u
  net_timestamp :: int

record 'u AllNetworksBalanceResult =
  all_walletAddress :: string
  all_networks :: "'u NetworkBalanceResult list"
  all_totalUsdValue :: 'u
  all_timestamp :: int

text \<open>\<^verbatim>\<open>HealthCheckResult\<close> (rpc-manager) and \<^verbatim>\<open>CachedData\<close> (token-list-manager).\<close>

record HealthCheckResult =
  isHealthy :: bool
  lastCheck :: int

record CachedData =
  cd_data :: "TokenInfo list"
  cd_timestamp :: int
  cd_ttl :: int

text \<open>
  A client of the RPC library: the chain it was created for and the endpoint of its
  transport.
\<close>

record PublicClient =
  pc_chainId :: int
  pc_rpcUrl :: string

text \<open>
  A cache file \<^verbatim>\<open>cache/tokens_<chainId>.json\<close>: either its content parses to a
  \<^verbatim>\<open>CachedData\<close> or reading it raises.
\<close>

datatype cache_file = Unreadable | Stored CachedData

section \<open>The outside world\<close>

text \<open>
  What the program does to the outside world, in the order it does it: health probes,
  the smoke test of a new client, catalog downloads, native balance requests, the
  aggregate calls of the batch executor (with the number of the attempt and the endpoint)
  and the pauses between attempts (in milliseconds).
\<close>

datatype event =
    HealthProbe string
  | SmokeTest PublicClient
  | CatalogFetch
  | GetBalance PublicClient string
  | Attempt nat string
  | Delay nat

text \<open>
  The answers of the outside world are parameters. \<open>ticks\<close> (below) counts the
  interactions made so far, and the answer to an interaction may depend on its number:
  \<^item> \<open>clock n\<close>: the value of \<^verbatim>\<open>Date.now()\<close>;
  \<^item> \<open>healthProbe n url\<close>: whether \<^verbatim>\<open>getBlockNumber()\<close> of the 3 s health-check client
    on \<open>url\<close> succeeds;
  \<^item> \<open>smokeTest n client\<close>: whether \<^verbatim>\<open>getBlockNumber()\<close> of a newly created client succeeds;
  \<^item> \<open>catalogFetch n\<close>: the token table of the catalog response, \<open>None\<close> when the
    download or its parsing fails;
  \<^item> \<open>getBalance n client wallet\<close>: the native balance, \<open>None\<close> when the request fails or
    loses the race against the timeout;
  \<^item> \<open>aggregate3 n batch attempt\<close>: the decoded answer of the batching contract to the
    aggregate call of batch number \<open>batch\<close> at attempt \<open>attempt\<close>, \<open>None\<close> when the request
    fails, loses the race against the 10 s timeout or its answer does not decode;
  \<^item> \<open>decodeBalanceOf data\<close>: the ABI decoder on the return data of \<^verbatim>\<open>balanceOf\<close>,
    \<open>None\<close> when it raises;
  \<^item> \<open>dbl\<close>: see \<open>bigint_pow10\<close>; \<open>parseFloat\<close>, \<open>isNaN\<close>: the JavaScript functions.
\<close>

record 'u env =
  clock :: "nat \<Rightarrow> int"
  healthProbe :: "nat \<Rightarrow> string \<Rightarrow> bool"
  smokeTest :: "nat \<Rightarrow> PublicClient \<Rightarrow> bool"
  catalogFetch :: "nat \<Rightarrow> (string \<rightharpoonup> TokenInfo list) option"
  getBalance :: "nat \<Rightarrow> PublicClient \<Rightarrow> string \<Rightarrow> int option"
  aggregate3 :: "nat \<Rightarrow> nat \<Rightarrow> nat \<Rightarrow> MulticallResult list option"
  decodeBalanceOf :: "string \<Rightarrow> int option"
  dbl :: "nat \<Rightarrow> int"
  parseFloat :: "string \<Rightarrow> 'u"
  isNaN :: "'u \<Rightarrow> bool"

text \<open>
  The mutable state: the two caches of \<^verbatim>\<open>RPCManager\<close>, the memory cache and the cache
  files of \<^verbatim>\<open>TokenListManager\<close>, the number of interactions with the outside world and
  their log.
\<close>

record world =
  clientCache :: "int \<rightharpoonup> PublicClient"
  healthCache :: "string \<rightharpoonup> HealthCheckResult"
  memoryCache :: "string \<rightharpoonup> CachedData"
  fileCache :: "int \<rightharpoonup> cache_file"
  ticks :: nat
  log :: "event list"

definition initialWorld :: world where
  "initialWorld = \<lparr>clientCache = Map.empty, healthCache = Map.empty,
                    memoryCache = Map.empty, fileCache = Map.empty, ticks = 0, log = []\<rparr>"

text \<open>\<^verbatim>\<open>Date.now()\<close> and the record of an interaction.\<close>

definition dateNow :: "'u env \<Rightarrow> world \<Rightarrow> int \<times> world" where
  "dateNow env w = (clock env (ticks w), w\<lparr>ticks := Suc (ticks w)\<rparr>)"

definition interact :: "event \<Rightarrow> world \<Rightarrow> world" where
  "interact e w = w\<lparr>ticks := Suc (ticks w), log := log w @ [e]\<rparr>"

section \<open>Multicall3Service: adaptive batch size and partitioning\<close>

text \<open>
  The batch size chosen at the head of \<^verbatim>\<open>checkTokenBalancesBatched\<close>
  (\<^verbatim>\<open>let batchSize = 150; if (n > 1000) batchSize = 200 else if (n < 300) batchSize = 100\<close>),
  as a function of \<^verbatim>\<open>tokens.length\<close>.
\<close>

definition chooseBatchSize :: "nat \<Rightarrow> nat" where
  "chooseBatchSize n =
     (let batchSize = 150 in
      if n > 1000 then 200
      else if n < 300 then 100
      else batchSize)"

text \<open>
  \<^verbatim>\<open>createBatches\<close>: \<^verbatim>\<open>for (let i = 0; i < tokens.length; i += batchSize)
  batches.push(tokens.slice(i, i + batchSize))\<close>. With \<open>batchSize = 0\<close> and a non-empty
  list the source loop never ends, so the loop is a partial function and not returning is
  the value \<open>None\<close>.
\<close>

partial_function (option) createBatches_loop ::
  "'a list \<Rightarrow> nat \<Rightarrow> nat \<Rightarrow> 'a list list \<Rightarrow> 'a list list option" where
  "createBatches_loop tokens batchSize i batches =
     (if i < length tokens
      then createBatches_loop tokens batchSize (i + batchSize)
             (batches @ [slice tokens i (i + batchSize)])
      else Some batches)"

declare createBatches_loop.simps [code]

definition createBatches :: "'a list \<Rightarrow> nat \<Rightarrow> 'a list list option" where
  "createBatches tokens batchSize = createBatches_loop tokens batchSize 0 []"

section \<open>Multicall3Service: the batch executor\<close>

definition createBalanceOfCall :: "string \<Rightarrow> string \<Rightarrow> Call3" where
  "createBalanceOfCall tokenAddress walletAddress =
     \<lparr>call_target = tokenAddress, call_allowFailure = True,
      call_callData = BalanceOfCall walletAddress\<rparr>"

text \<open>
  \<^verbatim>\<open>calculateUSDValue\<close>: 0 for a price that is not a number or not positive, otherwise
  \<^verbatim>\<open>parseFloat(formatTokenBalance(balance, decimals)) * price\<close>.
\<close>

definition calculateUSDValue ::
  "('u::{zero,ord,times}) env \<Rightarrow> int \<Rightarrow> int \<Rightarrow> string \<Rightarrow> error + 'u" where
  "calculateUSDValue env balance decimals priceUSD =
     (let price = parseFloat env priceUSD in
      if isNaN env price \<or> price \<le> 0 then Inr 0
      else case formatTokenBalance (dbl env) balance decimals of
             Inl e \<Rightarrow> Inl e
           | Inr balanceFormatted \<Rightarrow> Inr (parseFloat env balanceFormatted * price))"

text \<open>
  \<^verbatim>\<open>executeMulticall\<close> with an explicit endpoint (the only way the batch executor calls
  it): \<^verbatim>\<open>getClientWithRPC\<close> and the check that follows it raise for a chain id that is not
  in the registry; otherwise the request is made and \<open>response\<close> is its outcome.
\<close>

definition getClientWithRPC :: "int \<Rightarrow> string \<Rightarrow> error + PublicClient" where
  "getClientWithRPC chainId rpcUrl =
     (case getNetworkConfig chainId of
        None \<Rightarrow> Inl (UnsupportedNetwork chainId)
      | Some networkConfig \<Rightarrow> Inr \<lparr>pc_chainId = cfg_chainId networkConfig, pc_rpcUrl = rpcUrl\<rparr>)"

definition executeMulticall ::
  "int \<Rightarrow> Call3 list \<Rightarrow> string \<Rightarrow> MulticallResult list option
     \<Rightarrow> error + MulticallResult list" where
  "executeMulticall chainId calls rpcUrl response =
     (case getClientWithRPC chainId rpcUrl of
        Inl e \<Rightarrow> Inl e
      | Inr client \<Rightarrow>
          (case getNetworkConfig chainId of
             None \<Rightarrow> Inl (UnsupportedNetwork chainId)
           | Some networkConfig \<Rightarrow>
               (case response of
                  None \<Rightarrow> Inl (MulticallFailed chainId)
                | Some decoded \<Rightarrow> Inr decoded)))"

text \<open>
  The loop of \<^verbatim>\<open>executeMulticallWithRPC\<close> over \<^verbatim>\<open>i = 0 .. tokens.length - 1\<close>:
  a missing result (\<^verbatim>\<open>results[i]\<close> undefined) and a result without success are skipped;
  the body is a \<^verbatim>\<open>try\<close> whose \<^verbatim>\<open>catch\<close> skips the token, whatever was raised.
\<close>

definition balanceRecord :: "('u::{zero,ord,times}) env \<Rightarrow> TokenInfo \<Rightarrow> MulticallResult
    \<Rightarrow> error + 'u BalanceResult" where
  "balanceRecord env token result =
     (case decodeBalanceOf env (res_returnData result) of
        None \<Rightarrow> Inl DecodeSkipped
      | Some balance \<Rightarrow>
          (case formatTokenBalance (dbl env) balance (tok_decimals token) of
             Inl e \<Rightarrow> Inl e
           | Inr balanceFormatted \<Rightarrow>
               (case calculateUSDValue env balance (tok_decimals token) (tok_priceUSD token) of
                  Inl e \<Rightarrow> Inl e
                | Inr usdValue \<Rightarrow>
                    Inr \<lparr>bal_address = tok_address token, bal_symbol = tok_symbol token,
                         bal_name = tok_name token, bal_balance = balance,
                         bal_balanceFormatted = balanceFormatted,
                         bal_decimals = tok_decimals token, bal_usdValue = usdValue,
                         bal_priceUSD = tok_priceUSD token\<rparr>)))"

function balanceLoop :: "('u::{zero,ord,times}) env \<Rightarrow> TokenInfo list \<Rightarrow> MulticallResult list
    \<Rightarrow> nat \<Rightarrow> 'u BalanceResult list \<Rightarrow> 'u BalanceResult list" where
  "balanceLoop env tokens results i balanceResults =
     (if i < length tokens then
        (if \<not> i < length results then balanceLoop env tokens results (i + 1) balanceResults
         else
           let token = tokens ! i; result = results ! i in
           if \<not> res_success result then balanceLoop env tokens results (i + 1) balanceResults
           else
             (case balanceRecord env token result of
                Inr r \<Rightarrow> balanceLoop env tokens results (i + 1) (balanceResults @ [r])
              | Inl e \<Rightarrow> balanceLoop env tokens results (i + 1) balanceResults))
      else balanceResults)"
  by pat_completeness auto
termination
  by (relation "measure (\<lambda>(env, tokens, results, i, balanceResults). length tokens - i)") auto

declare balanceLoop.simps [simp del]

definition executeMulticallWithRPC ::
  "('u::{zero,ord,times}) env \<Rightarrow> int \<Rightarrow> string \<Rightarrow> TokenInfo list \<Rightarrow> string
     \<Rightarrow> MulticallResult list option \<Rightarrow> error + 'u BalanceResult list" where
  "executeMulticallWithRPC env chainId walletAddress tokens rpcUrl response =
     (let calls = map (\<lambda>token. createBalanceOfCall (tok_address token) walletAddress) tokens in
      case executeMulticall chainId calls rpcUrl response of
        Inl e \<Rightarrow> Inl e
      | Inr results \<Rightarrow>
          Inr (filter (\<lambda>result. bal_balance result > 0) (balanceLoop env tokens results 0 [])))"

text \<open>
  \<^verbatim>\<open>checkSingleBatchWithRPCRotation\<close>: the loop over \<^verbatim>\<open>attempt = 1 .. maxAttempts\<close>.
  \<^verbatim>\<open>rpcUrls[(attempt - 1) % rpcUrls.length]\<close> is undefined for an empty list (the index is
  \<^verbatim>\<open>NaN\<close>); an undefined or empty endpoint is skipped by \<^verbatim>\<open>continue\<close>. \<open>net attempt\<close> is the
  outcome of the aggregate call made at that attempt. The function returns its result and
  the attempts and pauses it made, in order.
\<close>

definition rotatingEndpoint :: "string list \<Rightarrow> nat \<Rightarrow> string option" where
  "rotatingEndpoint rpcUrls attempt =
     (if rpcUrls = [] then None else Some (rpcUrls ! ((attempt - 1) mod length rpcUrls)))"

function rotationLoop ::
  "('u::{zero,ord,times}) env \<Rightarrow> (nat \<Rightarrow> MulticallResult list option) \<Rightarrow> int \<Rightarrow> string
     \<Rightarrow> TokenInfo list \<Rightarrow> string list \<Rightarrow> nat \<Rightarrow> nat
     \<Rightarrow> (error + 'u BalanceResult list) \<times> event list" where
  "rotationLoop env net chainId walletAddress tokens rpcUrls maxAttempts attempt =
     (if attempt \<le> maxAttempts then
        (case rotatingEndpoint rpcUrls attempt of
           None \<Rightarrow>
             rotationLoop env net chainId walletAddress tokens rpcUrls maxAttempts (attempt + 1)
         | Some currentRpc \<Rightarrow>
             if currentRpc = [] then
               rotationLoop env net chainId walletAddress tokens rpcUrls maxAttempts (attempt + 1)
             else
               (case executeMulticallWithRPC env chainId walletAddress tokens currentRpc
                       (net attempt) of
                  Inr balances \<Rightarrow> (Inr balances, [Attempt attempt currentRpc])
                | Inl e \<Rightarrow>
                    let (outcome, events) =
                      rotationLoop env net chainId walletAddress tokens rpcUrls maxAttempts
                        (attempt + 1)
                    in (outcome,
                        Attempt attempt currentRpc
                          # (if attempt < maxAttempts then [Delay 500] else []) @ events)))
      else (Inl (BatchExhausted maxAttempts), []))"
  by pat_completeness auto
termination
  by (relation "measure (\<lambda>(env, net, chainId, walletAddress, tokens, rpcUrls, maxAttempts,
        attempt). Suc maxAttempts - attempt)") auto

declare rotationLoop.simps [simp del]

definition checkSingleBatchWithRPCRotation ::
  "('u::{zero,ord,times}) env \<Rightarrow> (nat \<Rightarrow> MulticallResult list option) \<Rightarrow> int \<Rightarrow> string
     \<Rightarrow> TokenInfo list \<Rightarrow> string list \<Rightarrow> nat
     \<Rightarrow> (error + 'u BalanceResult list) \<times> event list" where
  "checkSingleBatchWithRPCRotation env net chainId walletAddress tokens rpcUrls maxAttempts =
     rotationLoop env net chainId walletAddress tokens rpcUrls maxAttempts 1"

text \<open>
  \<^verbatim>\<open>checkTokenBalancesBatched\<close>. The batches of a group run concurrently in the source and
  \<^verbatim>\<open>Promise.all\<close> returns their results by position; the model runs them one after the
  other, so the events of a group are listed batch by batch. A batch whose rotation raises
  contributes the empty list (the guard \<^verbatim>\<open>if (!batch) return []\<close> never fires: a batch is an
  array). \<open>net k attempt\<close> is the outcome of the aggregate call of batch
  number \<open>k\<close> at that attempt. The function does not return when \<^verbatim>\<open>createBatches\<close> does
  not (\<open>None\<close>).
\<close>

definition MAX_CONCURRENT_BATCHES :: nat where
  "MAX_CONCURRENT_BATCHES = 6"

definition runBatch ::
  "('u::{zero,ord,times}) env \<Rightarrow> (nat \<Rightarrow> nat \<Rightarrow> MulticallResult list option) \<Rightarrow> int \<Rightarrow> string
     \<Rightarrow> string list \<Rightarrow> nat \<times> TokenInfo list \<Rightarrow> 'u BalanceResult list \<times> event list" where
  "runBatch env net chainId walletAddress rpcUrls numbered =
     (case checkSingleBatchWithRPCRotation env (net (fst numbered)) chainId walletAddress
             (snd numbered) rpcUrls 3 of
        (Inr batchResult, events) \<Rightarrow> (batchResult, events)
      | (Inl e, events) \<Rightarrow> ([], events))"

function groupLoop ::
  "('u::{zero,ord,times}) env \<Rightarrow> (nat \<Rightarrow> nat \<Rightarrow> MulticallResult list option) \<Rightarrow> int \<Rightarrow> string
     \<Rightarrow> string list \<Rightarrow> TokenInfo list list \<Rightarrow> nat
     \<Rightarrow> 'u BalanceResult list list \<times> event list" where
  "groupLoop env net chainId walletAddress rpcUrls batches i =
     (if i < length batches then
        let batchGroup = slice batches i (i + MAX_CONCURRENT_BATCHES);
            groupResults = map (runBatch env net chainId walletAddress rpcUrls)
                             (enumerate i batchGroup);
            (batchResults, events) =
              groupLoop env net chainId walletAddress rpcUrls batches (i + MAX_CONCURRENT_BATCHES)
        in (map fst groupResults @ batchResults, concat (map snd groupResults) @ events)
      else ([], []))"
  by pat_completeness auto
termination
  by (relation "measure (\<lambda>(env, net, chainId, walletAddress, rpcUrls, batches, i).
        length batches - i)") (auto simp: MAX_CONCURRENT_BATCHES_def)

declare groupLoop.simps [simp del]

definition checkTokenBalancesBatched ::
  "('u::{zero,ord,times}) env \<Rightarrow> (nat \<Rightarrow> nat \<Rightarrow> MulticallResult list option) \<Rightarrow> int \<Rightarrow> string
     \<Rightarrow> TokenInfo list \<Rightarrow> ('u BalanceResult list \<times> event list) option" where
  "checkTokenBalancesBatched env net chainId walletAddress tokens =
     (if length tokens = 0 then Some ([], [])
      else
        let batchSize = chooseBatchSize (length tokens) in
        case createBatches tokens batchSize of
          None \<Rightarrow> None
        | Some batches \<Rightarrow>
            let rpcUrls = (case getNetworkConfig chainId of
                             None \<Rightarrow> []
                           | Some networkConfig \<Rightarrow> cfg_rpcUrls networkConfig);
                (batchResults, events) =
                  groupLoop env net chainId walletAddress rpcUrls batches 0
            in Some (concat batchResults, events))"

definition checkTokenBalances ::
  "('u::{zero,ord,times}) env \<Rightarrow> (nat \<Rightarrow> nat \<Rightarrow> MulticallResult list option) \<Rightarrow> int \<Rightarrow> string
     \<Rightarrow> TokenInfo list \<Rightarrow> ('u BalanceResult list \<times> event list) option" where
  "checkTokenBalances env net chainId walletAddress tokens =
     (if length tokens = 0 then Some ([], [])
      else checkTokenBalancesBatched env net chainId walletAddress tokens)"

section \<open>RPCManager: endpoint health and client cache\<close>

definition HEALTH_CHECK_TTL :: int where
  "HEALTH_CHECK_TTL = 5 * 60 * 1000"

text \<open>
  \<^verbatim>\<open>checkRPCHealth\<close>. The clock is read in the guard only when the cache has an entry
  (\<^verbatim>\<open>cached && Date.now() - cached.lastCheck < TTL\<close>). Both arms of the \<^verbatim>\<open>try\<close> store the
  verdict with a fresh reading of the clock.
\<close>

definition probeRPC :: "'u env \<Rightarrow> string \<Rightarrow> string \<Rightarrow> world \<Rightarrow> bool \<times> world" where
  "probeRPC env cacheKey rpcUrl w =
     (let verdict = healthProbe env (ticks w) rpcUrl;
          w1 = interact (HealthProbe rpcUrl) w;
          (now, w2) = dateNow env w1
      in (verdict,
          w2\<lparr>healthCache := (healthCache w2)
                (cacheKey \<mapsto> \<lparr>isHealthy = verdict, lastCheck = now\<rparr>)\<rparr>))"

definition checkRPCHealth :: "'u env \<Rightarrow> string \<Rightarrow> world \<Rightarrow> bool \<times> world" where
  "checkRPCHealth env rpcUrl w =
     (let cacheKey = ''health_'' @ rpcUrl in
      case healthCache w cacheKey of
        None \<Rightarrow> probeRPC env cacheKey rpcUrl w
      | Some cached \<Rightarrow>
          let (now, w1) = dateNow env w in
          if now - lastCheck cached < HEALTH_CHECK_TTL then (isHealthy cached, w1)
          else probeRPC env cacheKey rpcUrl w1)"

text \<open>\<^verbatim>\<open>findWorkingRPC\<close>: the first endpoint, in the order of the configuration, that is healthy.\<close>

fun firstHealthy :: "'u env \<Rightarrow> string list \<Rightarrow> world \<Rightarrow> string option \<times> world" where
  "firstHealthy env [] w = (None, w)"
| "firstHealthy env (rpcUrl # rest) w =
     (let (healthy, w1) = checkRPCHealth env rpcUrl w in
      if healthy then (Some rpcUrl, w1) else firstHealthy env rest w1)"

definition findWorkingRPC :: "'u env \<Rightarrow> int \<Rightarrow> world \<Rightarrow> (error + string option) \<times> world" where
  "findWorkingRPC env chainId w =
     (case getNetworkConfig chainId of
        None \<Rightarrow> (Inl (UnsupportedNetwork chainId), w)
      | Some config \<Rightarrow>
          let (found, w1) = firstHealthy env (cfg_rpcUrls config) w in (Inr found, w1))"

text \<open>
  \<^verbatim>\<open>createClient\<close> and \<^verbatim>\<open>getClient\<close>. \<^verbatim>\<open>!workingRPC\<close> holds for \<^verbatim>\<open>null\<close> and for the empty
  string.
\<close>

definition createClient :: "'u env \<Rightarrow> int \<Rightarrow> world \<Rightarrow> (error + PublicClient) \<times> world" where
  "createClient env chainId w =
     (case clientCache w chainId of
        Some client \<Rightarrow> (Inr client, w)
      | None \<Rightarrow>
          (case getNetworkConfig chainId of
             None \<Rightarrow> (Inl (UnsupportedNetwork chainId), w)
           | Some config \<Rightarrow>
               (case findWorkingRPC env chainId w of
                  (Inl e, w1) \<Rightarrow> (Inl e, w1)
                | (Inr found, w1) \<Rightarrow>
                    (case found of
                       None \<Rightarrow> (Inl (NoHealthyEndpoint (cfg_name config)), w1)
                     | Some workingRPC \<Rightarrow>
                         if workingRPC = [] then (Inl (NoHealthyEndpoint (cfg_name config)), w1)
                         else
                           let client = \<lparr>pc_chainId = cfg_chainId config,
                                          pc_rpcUrl = workingRPC\<rparr>;
                               tested = smokeTest env (ticks w1) client;
                               w2 = interact (SmokeTest client) w1
                           in if tested
                              then (Inr client,
                                    w2\<lparr>clientCache := (clientCache w2)(chainId \<mapsto> client)\<rparr>)
                              else (Inl (ClientCreationFailed (cfg_name config)), w2)))))"

definition getClient :: "'u env \<Rightarrow> int \<Rightarrow> world \<Rightarrow> (error + PublicClient) \<times> world" where
  "getClient env chainId w = createClient env chainId w"

text \<open>\<^verbatim>\<open>clearCache\<close> (and \<^verbatim>\<open>closeAllConnections\<close>, which clears the same two maps).\<close>

definition clearCache :: "world \<Rightarrow> world" where
  "clearCache w = w\<lparr>clientCache := Map.empty, healthCache := Map.empty\<rparr>"

definition closeAllConnections :: "world \<Rightarrow> world" where
  "closeAllConnections w = w\<lparr>clientCache := Map.empty, healthCache := Map.empty\<rparr>"

text \<open>
  \<^verbatim>\<open>RPCManager.checkAllNetworks\<close>: \<^verbatim>\<open>findWorkingRPC\<close> for every entry of the table, a
  failure reported as unavailable.
\<close>

fun rpcCheckAllNetworks ::
  "'u env \<Rightarrow> NetworkConfig list \<Rightarrow> world \<Rightarrow> (int \<times> string \<times> string option) list \<times> world" where
  "rpcCheckAllNetworks env [] w = ([], w)"
| "rpcCheckAllNetworks env (config # rest) w =
     (let (found, w1) = findWorkingRPC env (cfg_chainId config) w;
          entry = (cfg_chainId config, cfg_name config,
                   case found of Inl e \<Rightarrow> None
                   | Inr None \<Rightarrow> None
                   | Inr (Some workingRPC) \<Rightarrow> if workingRPC = [] then None else Some workingRPC);
          (entries, w2) = rpcCheckAllNetworks env rest w1
      in (entry # entries, w2))"

section \<open>TokenListManager: the token catalog and its caches\<close>

definition CACHE_DURATION :: int where
  "CACHE_DURATION = 30 * 60 * 1000"

definition isCacheValid :: "'u env \<Rightarrow> CachedData \<Rightarrow> world \<Rightarrow> bool \<times> world" where
  "isCacheValid env cached w =
     (let (now, w1) = dateNow env w in (now - cd_timestamp cached < cd_ttl cached, w1))"

text \<open>
  \<^verbatim>\<open>loadFromFileCache\<close>: no file or an unreadable file gives \<^verbatim>\<open>null\<close>; a stale file is
  deleted. \<^verbatim>\<open>saveToFileCache\<close> writes the file; a failure of the write is caught and logged
  by the source and is not modelled.
\<close>

definition loadFromFileCache ::
  "'u env \<Rightarrow> int \<Rightarrow> world \<Rightarrow> TokenInfo list option \<times> world" where
  "loadFromFileCache env chainId w =
     (case fileCache w chainId of
        None \<Rightarrow> (None, w)
      | Some Unreadable \<Rightarrow> (None, w)
      | Some (Stored cached) \<Rightarrow>
          let (valid, w1) = isCacheValid env cached w in
          if valid then (Some (cd_data cached), w1)
          else (None, w1\<lparr>fileCache := (fileCache w1)(chainId := None)\<rparr>))"

definition saveToFileCache :: "'u env \<Rightarrow> int \<Rightarrow> TokenInfo list \<Rightarrow> world \<Rightarrow> world" where
  "saveToFileCache env chainId data w =
     (let (now, w1) = dateNow env w in
      w1\<lparr>fileCache := (fileCache w1)
            (chainId \<mapsto> Stored \<lparr>cd_data = data, cd_timestamp = now, cd_ttl = CACHE_DURATION\<rparr>)\<rparr>)"

text \<open>\<^verbatim>\<open>fetchFromAPI\<close>: every failure is raised again as one error.\<close>

definition fetchFromAPI ::
  "'u env \<Rightarrow> world \<Rightarrow> (error + (string \<rightharpoonup> TokenInfo list)) \<times> world" where
  "fetchFromAPI env w =
     (let response = catalogFetch env (ticks w);
          w1 = interact CatalogFetch w
      in case response of
           None \<Rightarrow> (Inl CatalogUnavailable, w1)
         | Some data \<Rightarrow> (Inr data, w1))"

text \<open>
  \<^verbatim>\<open>getTokensForChain\<close>: memory cache, then file cache, then the catalog. The error of
  \<^verbatim>\<open>fetchFromAPI\<close> is not caught here.
\<close>

definition tokensFromFileOrAPI ::
  "'u env \<Rightarrow> string \<Rightarrow> int \<Rightarrow> world \<Rightarrow> (error + TokenInfo list) \<times> world" where
  "tokensFromFileOrAPI env cacheKey chainId w =
     (case loadFromFileCache env chainId w of
        (Some fileCached, w1) \<Rightarrow>
          let (now, w2) = dateNow env w1 in
          (Inr fileCached,
           w2\<lparr>memoryCache := (memoryCache w2)
                 (cacheKey \<mapsto> \<lparr>cd_data = fileCached, cd_timestamp = now,
                               cd_ttl = CACHE_DURATION\<rparr>)\<rparr>)
      | (None, w1) \<Rightarrow>
          (case fetchFromAPI env w1 of
             (Inl e, w2) \<Rightarrow> (Inl e, w2)
           | (Inr apiData, w2) \<Rightarrow>
               let tokens = (case apiData (bigint_toString chainId) of
                               None \<Rightarrow> []
                             | Some listed \<Rightarrow> listed)
               in if length tokens = 0 then (Inr [], w2)
                  else
                    let (now, w3) = dateNow env w2;
                        cached = \<lparr>cd_data = tokens, cd_timestamp = now,
                                  cd_ttl = CACHE_DURATION\<rparr>;
                        w4 = w3\<lparr>memoryCache := (memoryCache w3)(cacheKey \<mapsto> cached)\<rparr>
                    in (Inr tokens, saveToFileCache env chainId tokens w4)))"

definition getTokensForChain ::
  "'u env \<Rightarrow> int \<Rightarrow> world \<Rightarrow> (error + TokenInfo list) \<times> world" where
  "getTokensForChain env chainId w =
     (let cacheKey = ''tokens_'' @ bigint_toString chainId in
      case memoryCache w cacheKey of
        None \<Rightarrow> tokensFromFileOrAPI env cacheKey chainId w
      | Some memoryCached \<Rightarrow>
          let (valid, w1) = isCacheValid env memoryCached w in
          if valid then (Inr (cd_data memoryCached), w1)
          else tokensFromFileOrAPI env cacheKey chainId w1)"

text \<open>\<^verbatim>\<open>TokenListManager.clearCache\<close>: the memory cache and the cache files.\<close>

definition tokenClearCache :: "world \<Rightarrow> world" where
  "tokenClearCache w = w\<lparr>memoryCache := Map.empty, fileCache := Map.empty\<rparr>"

section \<open>Multicall3Service: the native balance\<close>

text \<open>
  \<^verbatim>\<open>getNativeTokenPrice\<close>: the price of the first token of the catalog; 0 for an empty
  catalog and for any error (the \<^verbatim>\<open>catch\<close> returns 0).
\<close>

definition getNativeTokenPrice :: "('u::{zero,ord,times}) env \<Rightarrow> int \<Rightarrow> world \<Rightarrow> 'u \<times> world" where
  "getNativeTokenPrice env chainId w =
     (case getTokensForChain env chainId w of
        (Inl e, w1) \<Rightarrow> (0, w1)
      | (Inr tokens, w1) \<Rightarrow>
          (case tokens of
             [] \<Rightarrow> (0, w1)
           | nativeToken # rest \<Rightarrow> (parseFloat env (tok_priceUSD nativeToken), w1)))"

definition calculateNativeUSDValue ::
  "('u::{zero,ord,times}) env \<Rightarrow> int \<Rightarrow> int \<Rightarrow> int \<Rightarrow> world \<Rightarrow> (error + 'u) \<times> world" where
  "calculateNativeUSDValue env balance decimals chainId w =
     (let (nativePrice, w1) = getNativeTokenPrice env chainId w in
      if nativePrice \<le> 0 then (Inr 0, w1)
      else case formatNativeBalance (dbl env) balance decimals of
             Inl e \<Rightarrow> (Inl e, w1)
           | Inr balanceFormatted \<Rightarrow> (Inr (parseFloat env balanceFormatted * nativePrice), w1))"

text \<open>
  \<^verbatim>\<open>checkNativeBalance\<close>: whatever is raised inside the \<^verbatim>\<open>try\<close> is raised again as one
  error; the errors of the registry check and of \<^verbatim>\<open>getClient\<close> pass unchanged.
\<close>

definition checkNativeBalance ::
  "('u::{zero,ord,times}) env \<Rightarrow> int \<Rightarrow> string \<Rightarrow> world
     \<Rightarrow> (error + 'u NativeBalanceResult) \<times> world" where
  "checkNativeBalance env chainId walletAddress w =
     (case getNetworkConfig chainId of
        None \<Rightarrow> (Inl (UnsupportedNetwork chainId), w)
      | Some networkConfig \<Rightarrow>
          (case getClient env chainId w of
             (Inl e, w1) \<Rightarrow> (Inl e, w1)
           | (Inr client, w1) \<Rightarrow>
               let answer = getBalance env (ticks w1) client walletAddress;
                   w2 = interact (GetBalance client walletAddress) w1
               in (case answer of
                     None \<Rightarrow> (Inl NativeBalanceFailed, w2)
                   | Some balance \<Rightarrow>
                       (case formatNativeBalance (dbl env) balance
                               (cur_decimals (cfg_nativeCurrency networkConfig)) of
                          Inl e \<Rightarrow> (Inl NativeBalanceFailed, w2)
                        | Inr balanceFormatted \<Rightarrow>
                            (case calculateNativeUSDValue env balance
                                    (cur_decimals (cfg_nativeCurrency networkConfig)) chainId w2 of
                               (Inl e, w3) \<Rightarrow> (Inl NativeBalanceFailed, w3)
                             | (Inr usdValue, w3) \<Rightarrow>
                                 (Inr \<lparr>nat_balance = balance,
                                       nat_balanceFormatted = balanceFormatted,
                                       nat_symbol = cur_symbol (cfg_nativeCurrency networkConfig),
                                       nat_usdValue = usdValue\<rparr>, w3))))))"

section \<open>BalanceChecker\<close>

text \<open>\<^verbatim>\<open>reduce((sum, x) => sum + x.usdValue, 0)\<close>.\<close>

definition sumUsd :: "('a \<Rightarrow> 'u) \<Rightarrow> 'a list \<Rightarrow> ('u::{zero,plus})" where
  "sumUsd value xs = foldl (\<lambda>sum x. sum + value x) 0 xs"

text \<open>
  \<^verbatim>\<open>checkSingleNetwork\<close>. No error is caught here: the registry miss, the error of
  \<^verbatim>\<open>getTokensForChain\<close> and the error of \<^verbatim>\<open>checkNativeBalance\<close> are raised to the caller.
  The run of \<^verbatim>\<open>checkTokenBalances\<close> counts as one interaction, and its attempts and pauses
  are appended to the log. \<open>None\<close>: the call does not return.
\<close>

definition checkSingleNetwork ::
  "('u::{zero,ord,times,plus}) env \<Rightarrow> string \<Rightarrow> int \<Rightarrow> world
     \<Rightarrow> ((error + 'u NetworkBalanceResult) \<times> world) option" where
  "checkSingleNetwork env walletAddress chainId w =
     (case getNetworkConfig chainId of
        None \<Rightarrow> Some (Inl (UnsupportedNetwork chainId), w)
      | Some networkConfig \<Rightarrow>
          (case getTokensForChain env chainId w of
             (Inl e, w1) \<Rightarrow> Some (Inl e, w1)
           | (Inr tokens, w1) \<Rightarrow>
               (case checkNativeBalance env chainId walletAddress w1 of
                  (Inl e, w2) \<Rightarrow> Some (Inl e, w2)
                | (Inr nativeBalance, w2) \<Rightarrow>
                    (case checkTokenBalances env (aggregate3 env (ticks w2)) chainId
                            walletAddress tokens of
                       None \<Rightarrow> None
                     | Some (tokenBalances, events) \<Rightarrow>
                         let w3 = w2\<lparr>ticks := Suc (ticks w2), log := log w2 @ events\<rparr>;
                             finalTokenBalances =
                               filter (\<lambda>token. bal_balance token > 0) tokenBalances;
                             tokenUsdValue = sumUsd bal_usdValue finalTokenBalances;
                             totalUsdValue = nat_usdValue nativeBalance + tokenUsdValue;
                             (now, w4) = dateNow env w3
                         in Some (Inr \<lparr>net_chainId = chainId,
                                       net_networkName = cfg_name networkConfig,
                                       net_walletAddress = walletAddress,
                                       net_nativeBalance = nativeBalance,
                                       net_tokenBalances = finalTokenBalances,
                                       net_totalUsdValue = totalUsdValue,
                                       net_timestamp = now\<rparr>, w4)))))"

text \<open>
  The body of the \<^verbatim>\<open>map\<close> in \<^verbatim>\<open>checkAllNetworks\<close>: \<^verbatim>\<open>checkSingleNetwork\<close> inside a
  \<^verbatim>\<open>try\<close>; the \<^verbatim>\<open>catch\<close> returns the placeholder result of the network.
\<close>

definition placeholderResult ::
  "string \<Rightarrow> int \<Rightarrow> int \<Rightarrow> ('u::zero) NetworkBalanceResult" where
  "placeholderResult walletAddress chainId now =
     (let networkConfig = getNetworkConfig chainId in
      \<lparr>net_chainId = chainId,
       net_networkName = (case networkConfig of
                            None \<Rightarrow> ''Chain '' @ bigint_toString chainId
                          | Some c \<Rightarrow> if cfg_name c = [] then ''Chain '' @ bigint_toString chainId
                                      else cfg_name c),
       net_walletAddress = walletAddress,
       net_nativeBalance =
         \<lparr>nat_balance = 0, nat_balanceFormatted = ''0'',
          nat_symbol = (case networkConfig of
                          None \<Rightarrow> ''ETH''
                        | Some c \<Rightarrow> if cur_symbol (cfg_nativeCurrency c) = [] then ''ETH''
                                    else cur_symbol (cfg_nativeCurrency c)),
          nat_usdValue = 0\<rparr>,
       net_tokenBalances = [],
       net_totalUsdValue = 0,
       net_timestamp = now\<rparr>)"

definition networkPromise ::
  "('u::{zero,ord,times,plus}) env \<Rightarrow> string \<Rightarrow> int \<Rightarrow> world
     \<Rightarrow> ((error + 'u NetworkBalanceResult) \<times> world) option" where
  "networkPromise env walletAddress chainId w =
     (case checkSingleNetwork env walletAddress chainId w of
        None \<Rightarrow> None
      | Some (Inr networkResult, w1) \<Rightarrow> Some (Inr networkResult, w1)
      | Some (Inl e, w1) \<Rightarrow>
          let (now, w2) = dateNow env w1 in
          Some (Inr (placeholderResult walletAddress chainId now), w2))"

text \<open>
  \<^verbatim>\<open>Promise.all\<close>: the list of the values, or the first rejection. The promises of the
  networks run concurrently in the source; the model runs them in the order of the list.
\<close>

fun promiseAll :: "(error + 'a) list \<Rightarrow> error + 'a list" where
  "promiseAll [] = Inr []"
| "promiseAll (Inl e # rest) = Inl e"
| "promiseAll (Inr x # rest) = (case promiseAll rest of Inl e \<Rightarrow> Inl e | Inr xs \<Rightarrow> Inr (x # xs))"

fun networkPromises ::
  "('u::{zero,ord,times,plus}) env \<Rightarrow> string \<Rightarrow> int list \<Rightarrow> world
     \<Rightarrow> ((error + 'u NetworkBalanceResult) list \<times> world) option" where
  "networkPromises env walletAddress [] w = Some ([], w)"
| "networkPromises env walletAddress (chainId # rest) w =
     (case networkPromise env walletAddress chainId w of
        None \<Rightarrow> None
      | Some (settled, w1) \<Rightarrow>
          (case networkPromises env walletAddress rest w1 of
             None \<Rightarrow> None
           | Some (others, w2) \<Rightarrow> Some (settled # others, w2)))"

text \<open>
  \<^verbatim>\<open>checkAllNetworks (walletAddress, config)\<close>; \<open>chainIds\<close> is \<^verbatim>\<open>config.chainIds\<close>, \<open>None\<close> when
  the caller did not give it (an empty list given by the caller is used as it is).
\<close>

definition checkAllNetworks ::
  "('u::{zero,ord,times,plus}) env \<Rightarrow> string \<Rightarrow> int list option \<Rightarrow> world
     \<Rightarrow> ((error + 'u AllNetworksBalanceResult) \<times> world) option" where
  "checkAllNetworks env walletAddress chainIds w =
     (let supportedChainIds = getSupportedChainIds;
          chainIds = (case chainIds of None \<Rightarrow> supportedChainIds | Some given \<Rightarrow> given)
      in case networkPromises env walletAddress chainIds w of
           None \<Rightarrow> None
         | Some (settled, w1) \<Rightarrow>
             (case promiseAll settled of
                Inl e \<Rightarrow> Some (Inl e, w1)
              | Inr networkResults \<Rightarrow>
                  let totalUsdValue = sumUsd net_totalUsdValue networkResults;
                      (now, w2) = dateNow env w1
                  in Some (Inr \<lparr>all_walletAddress = walletAddress,
                                all_networks = networkResults,
                                all_totalUsdValue = totalUsdValue,
                                all_timestamp = now\<rparr>, w2)))"

section \<open>Reading the log; example environments\<close>

fun is_attempt :: "event \<Rightarrow> bool" where
  "is_attempt (Attempt k rpcUrl) = True"
| "is_attempt e = False"

fun attemptedEndpoints :: "event list \<Rightarrow> string list" where
  "attemptedEndpoints [] = []"
| "attemptedEndpoints (Attempt k rpcUrl # es) = rpcUrl # attemptedEndpoints es"
| "attemptedEndpoints (e # es) = attemptedEndpoints es"

text \<open>
  An environment in which every request fails and one in which every request succeeds
  (block numbers are served, the native balance is 5, the catalog is empty); USD values
  are integers.
\<close>

definition deadEnv :: "int env" where
  "deadEnv = \<lparr>clock = (\<lambda>n. int n), healthProbe = (\<lambda>n rpcUrl. False),
              smokeTest = (\<lambda>n client. False), catalogFetch = (\<lambda>n. None),
              getBalance = (\<lambda>n client wallet. None), aggregate3 = (\<lambda>n batch attempt. None),
              decodeBalanceOf = (\<lambda>returnData. None), dbl = (\<lambda>d. 0),
              parseFloat = (\<lambda>s. 0), isNaN = (\<lambda>x. True)\<rparr>"

definition liveEnv :: "int env" where
  "liveEnv = \<lparr>clock = (\<lambda>n. int n), healthProbe = (\<lambda>n rpcUrl. True),
              smokeTest = (\<lambda>n client. True), catalogFetch = (\<lambda>n. Some Map.empty),
              getBalance = (\<lambda>n client wallet. Some 5), aggregate3 = (\<lambda>n batch attempt. None),
              decodeBalanceOf = (\<lambda>returnData. None), dbl = (\<lambda>d. 0),
              parseFloat = (\<lambda>s. 0), isNaN = (\<lambda>x. True)\<rparr>"

section \<open>Reachable states\<close>

text \<open>
  The states the program can be in: the initial state, in which all caches are empty, and
  every state that a public operation of \<^verbatim>\<open>RPCManager\<close>, \<^verbatim>\<open>TokenListManager\<close>,
  \<^verbatim>\<open>Multicall3Service\<close> or \<^verbatim>\<open>BalanceChecker\<close> leaves behind when it is run in a reachable
  state. The caches are private fields, so nothing else writes them.
\<close>

inductive reachable :: "('u::{zero,ord,times,plus}) env \<Rightarrow> world \<Rightarrow> bool" for env where
  initial: "reachable env initialWorld"
| after_createClient:
    "reachable env w \<Longrightarrow> createClient env chainId w = (r, w') \<Longrightarrow> reachable env w'"
| after_getClient:
    "reachable env w \<Longrightarrow> getClient env chainId w = (r, w') \<Longrightarrow> reachable env w'"
| after_clearCache:
    "reachable env w \<Longrightarrow> reachable env (clearCache w)"
| after_closeAllConnections:
    "reachable env w \<Longrightarrow> reachable env (closeAllConnections w)"
| after_rpcCheckAllNetworks:
    "reachable env w \<Longrightarrow> rpcCheckAllNetworks env networkConfigs w = (rs, w')
       \<Longrightarrow> reachable env w'"
| after_getTokensForChain:
    "reachable env w \<Longrightarrow> getTokensForChain env chainId w = (ts, w') \<Longrightarrow> reachable env w'"
| after_tokenClearCache:
    "reachable env w \<Longrightarrow> reachable env (tokenClearCache w)"
| after_checkNativeBalance:
    "reachable env w \<Longrightarrow> checkNativeBalance env chainId walletAddress w = (nb, w')
       \<Longrightarrow> reachable env w'"
| after_checkSingleNetwork:
    "reachable env w \<Longrightarrow> checkSingleNetwork env walletAddress chainId w = Some (nr, w')
       \<Longrightarrow> reachable env w'"
| after_checkAllNetworks:
    "reachable env w \<Longrightarrow> checkAllNetworks env walletAddress chainIds w = Some (ar, w')
       \<Longrightarrow> reachable env w'"

text \<open>Every chain id that has a cached client is in the registry.\<close>

definition clientCacheSound :: "world \<Rightarrow> bool" where
  "clientCacheSound w =
     (\<forall>chainId client. clientCache w chainId = Some client \<longrightarrow> getNetworkConfig chainId \<noteq> None)"

text \<open>The zero-valued result of a network: no native balance, no tokens, no value.\<close>

definition zeroValued :: "('u::zero) NetworkBalanceResult \<Rightarrow> bool" where
  "zeroValued n \<longleftrightarrow>
     nat_balance (net_nativeBalance n) = 0
     \<and> nat_balanceFormatted (net_nativeBalance n) = ''0''
     \<and> nat_usdValue (net_nativeBalance n) = 0
     \<and> net_tokenBalances n = []
     \<and> net_totalUsdValue n = 0"

text \<open>An environment in which only the token catalog is down.\<close>

definition catalogDownEnv :: "int env" where
  "catalogDownEnv = liveEnv\<lparr>catalogFetch := (\<lambda>n. None)\<rparr>"

text \<open>
  An environment with three tokens in the catalog of chain 1, whose aggregate calls answer
  with a balance of 5 for the first token, a balance of 0 for the second and a failed call
  for the third.
\<close>

definition exampleToken :: "string \<Rightarrow> TokenInfo" where
  "exampleToken address =
     \<lparr>tok_chainId = 1, tok_address = address, tok_symbol = ''TKN'', tok_name = ''Token'',
      tok_decimals = 0, tok_priceUSD = ''1'', tok_coinKey = ''TKN'', tok_logoURI = None\<rparr>"

definition exampleTokens :: "TokenInfo list" where
  "exampleTokens = [exampleToken ''0xa'', exampleToken ''0xb'', exampleToken ''0xc'']"

definition exampleResults :: "MulticallResult list" where
  "exampleResults =
     [\<lparr>res_success = True, res_returnData = ''0x05''\<rparr>,
      \<lparr>res_success = True, res_returnData = ''0x00''\<rparr>,
      \<lparr>res_success = False, res_returnData = ''0x''\<rparr>]"

definition tokenEnv :: "int env" where
  "tokenEnv = liveEnv
     \<lparr>catalogFetch := (\<lambda>n. Some [''1'' \<mapsto> exampleTokens]),
      aggregate3 := (\<lambda>n batch attempt. Some exampleResults),
      decodeBalanceOf := (\<lambda>returnData. if returnData = ''0x05'' then Some 5
                                        else if returnData = ''0x00'' then Some 0 else None)\<rparr>"

definition exampleRecord :: "int BalanceResult" where
  "exampleRecord =
     \<lparr>bal_address = ''0xa'', bal_symbol = ''TKN'', bal_name = ''Token'', bal_balance = 5,
      bal_balanceFormatted = ''5'', bal_decimals = 0, bal_usdValue = 0, bal_priceUSD = ''1''\<rparr>"

text \<open>
  The state in which \<^verbatim>\<open>getTokensForChain\<close> calls \<^verbatim>\<open>fetchFromAPI\<close>: the memory cache has no
  entry for the chain or an expired one, and the cache file is missing, unreadable or
  expired. \<open>None\<close> when one of the two caches serves the request, so that nothing is
  downloaded.
\<close>

definition beforeDownload :: "'u env \<Rightarrow> int \<Rightarrow> world \<Rightarrow> world option" where
  "beforeDownload env chainId w =
     (let afterMemory =
            (case memoryCache w (''tokens_'' @ bigint_toString chainId) of
               None \<Rightarrow> Some w
             | Some memoryCached \<Rightarrow>
                 let (valid, w1) = isCacheValid env memoryCached w in
                 if valid then None else Some w1)
      in case afterMemory of
           None \<Rightarrow> None
         | Some w1 \<Rightarrow>
             (case loadFromFileCache env chainId w1 of
                (Some fileCached, w2) \<Rightarrow> None
              | (None, w2) \<Rightarrow> Some w2))"

section \<open>The partitioning covers the input\<close>

lemma createBatches_loop_returns:
  assumes "0 < bs"
  shows "\<exists>rest. createBatches_loop tokens bs i acc = Some (acc @ rest)
           \<and> concat rest = drop i tokens
           \<and> length rest = (length tokens - i + bs - 1) div bs
           \<and> (\<forall>k < length rest. rest ! k = slice tokens (i + k * bs) (i + k * bs + bs))"
proof (induction "length tokens - i" arbitrary: i acc rule: less_induct)
  case less
  show ?case
  proof (cases "i < length tokens")
    case False
    then have "createBatches_loop tokens bs i acc = Some (acc @ [])"
      by (subst createBatches_loop.simps) simp
    moreover from False assms have "(length tokens - i + bs - 1) div bs = 0"
      by simp
    ultimately show ?thesis using False
      by (intro exI [of _ "[]"]) simp
  next
    case True
    let ?b = "slice tokens i (i + bs)"
    from True assms have "length tokens - (i + bs) < length tokens - i"
      by arith
    from less [OF this, of "acc @ [?b]"]
    obtain rest where rest:
      "createBatches_loop tokens bs (i + bs) (acc @ [?b]) = Some ((acc @ [?b]) @ rest)"
      "concat rest = drop (i + bs) tokens"
      "length rest = (length tokens - (i + bs) + bs - 1) div bs"
      "\<forall>k < length rest. rest ! k = slice tokens (i + bs + k * bs) (i + bs + k * bs + bs)"
      by blast
    have run: "createBatches_loop tokens bs i acc = Some (acc @ (?b # rest))"
      using True rest(1) by (subst createBatches_loop.simps) simp
    have cat: "concat (?b # rest) = drop i tokens"
    proof -
      have "drop i tokens = take bs (drop i tokens) @ drop bs (drop i tokens)"
        by (simp only: append_take_drop_id)
      also have "drop bs (drop i tokens) = drop (i + bs) tokens"
        by (simp add: add.commute)
      finally show ?thesis using rest(2) by (simp add: slice_def)
    qed
    have len: "length (?b # rest) = (length tokens - i + bs - 1) div bs"
    proof (cases "i + bs \<le> length tokens")
      case True
      then have "length tokens - i + bs - 1 = (length tokens - (i + bs) + bs - 1) + bs"
        using assms by arith
      then have "(length tokens - i + bs - 1) div bs
                   = Suc ((length tokens - (i + bs) + bs - 1) div bs)"
        using assms by (simp only: div_add_self2)
      then show ?thesis by (simp only: rest(3) list.size)
    next
      case False
      with \<open>i < length tokens\<close> assms
      have "length tokens - (i + bs) + bs - 1 < bs"
        and "bs \<le> length tokens - i + bs - 1"
        and "length tokens - i + bs - 1 < 2 * bs"
        by arith+
      then have "(length tokens - (i + bs) + bs - 1) div bs = 0"
        and "(length tokens - i + bs - 1) div bs = 1"
        by (simp_all add: div_nat_eqI)
      with rest(3) show ?thesis by simp
    qed
    have nth: "(?b # rest) ! k = slice tokens (i + k * bs) (i + k * bs + bs)"
      if "k < length (?b # rest)" for k
    proof (cases k)
      case 0
      then show ?thesis by simp
    next
      case (Suc j)
      with that have "j < length rest" by simp
      with rest(4) have "rest ! j = slice tokens (i + bs + j * bs) (i + bs + j * bs + bs)"
        by blast
      then show ?thesis using Suc by (simp add: add.assoc)
    qed
    from run cat len nth show ?thesis by blast
  qed
qed

lemma slice_window_nonempty:
  assumes "0 < bs" and "k < (length xs + bs - 1) div bs"
  shows "slice xs (k * bs) (k * bs + bs) \<noteq> []"
proof -
  have "k * bs < length xs"
  proof (rule ccontr)
    assume "\<not> k * bs < length xs"
    with assms(1) have "length xs + bs - 1 < Suc k * bs" by simp
    then have "(length xs + bs - 1) div bs < Suc k"
      by (rule less_mult_imp_div_less)
    with assms(2) show False by simp
  qed
  with assms(1) show ?thesis by (simp add: slice_def)
qed

text \<open>
  C1. For a token list of length \<open>N\<close> the aggregator's batch size is 200 when \<open>N > 1000\<close>,
  100 when \<open>N < 300\<close> and 150 otherwise; \<^verbatim>\<open>createBatches\<close> with that size returns, and what
  it returns is the sequence of consecutive windows of that size: batch \<open>k\<close> is
  \<^verbatim>\<open>tokens.slice(k * size, k * size + size)\<close>, no batch is empty, and the concatenation of
  the batches is the input list, so no token is omitted or duplicated.
\<close>

theorem C1_batch_size_and_partition:
  "chooseBatchSize (length tokens) =
     (if length tokens > 1000 then 200 else if length tokens < 300 then 100 else 150)
   \<and> (\<exists>batches. createBatches tokens (chooseBatchSize (length tokens)) = Some batches
        \<and> concat batches = tokens
        \<and> (\<forall>k < length batches.
              batches ! k = slice tokens (k * chooseBatchSize (length tokens))
                                          (k * chooseBatchSize (length tokens)
                                             + chooseBatchSize (length tokens))
              \<and> batches ! k \<noteq> []
              \<and> length (batches ! k) \<le> chooseBatchSize (length tokens)))"
proof -
  let ?bs = "chooseBatchSize (length tokens)"
  have pos: "0 < ?bs" by (simp add: chooseBatchSize_def)
  from createBatches_loop_returns [OF pos, of tokens 0 "[]"]
  obtain rest where rest:
    "createBatches_loop tokens ?bs 0 [] = Some rest"
    "concat rest = tokens"
    "length rest = (length tokens + ?bs - 1) div ?bs"
    "\<forall>k < length rest. rest ! k = slice tokens (k * ?bs) (k * ?bs + ?bs)"
    by auto
  have "rest ! k \<noteq> [] \<and> length (rest ! k) \<le> ?bs" if "k < length rest" for k
    using that rest(3) rest(4) slice_window_nonempty [OF pos, of k tokens]
    by (simp add: slice_def)
  with rest show ?thesis
    unfolding createBatches_def by (auto simp: chooseBatchSize_def)
qed

theorem C1_batch_size_and_partition_witness:
  "\<exists>batches. createBatches [1::nat, 2, 3] (chooseBatchSize (length [1::nat, 2, 3])) = Some batches
      \<and> concat batches = [1, 2, 3]
      \<and> 0 < length batches
      \<and> batches ! 0 = [1, 2, 3]"
proof -
  from C1_batch_size_and_partition [of "[1::nat, 2, 3]"]
  obtain batches where b:
    "createBatches [1::nat, 2, 3] (chooseBatchSize (length [1::nat, 2, 3])) = Some batches"
    "concat batches = [1, 2, 3]"
    "\<forall>k < length batches.
       batches ! k = slice [1, 2, 3] (k * chooseBatchSize (length [1::nat, 2, 3]))
                      (k * chooseBatchSize (length [1::nat, 2, 3])
                         + chooseBatchSize (length [1::nat, 2, 3]))"
    by blast
  from b(2) have pos: "0 < length batches" by (cases batches) simp_all
  with b(3) have "batches ! 0 = slice [1, 2, 3] 0 (chooseBatchSize (length [1::nat, 2, 3]))"
    by fastforce
  then have "batches ! 0 = [1, 2, 3]"
    by (simp add: slice_def chooseBatchSize_def)
  with b(1) b(2) pos show ?thesis by blast
qed

section \<open>Balance formatting\<close>

lemma nat_toString_small: "n < 10 \<Longrightarrow> nat_toString n = [digit_char n]"
  by (subst nat_toString.simps) simp

lemma nat_toString_large:
  "\<not> n < 10 \<Longrightarrow> nat_toString n = nat_toString (n div 10) @ [digit_char (n mod 10)]"
  by (subst nat_toString.simps) simp

lemmas toString_eval =
  bigint_toString_def nat_toString_small nat_toString_large digit_char_def

lemma digit_char_no_dot: "d < 10 \<Longrightarrow> digit_char d \<noteq> CHR ''.''"
proof -
  assume "d < 10"
  then have "digit_char d \<in> set ''0123456789''"
    unfolding digit_char_def by (intro nth_mem) simp
  then show ?thesis by auto
qed

lemma nat_toString_no_dot: "CHR ''.'' \<notin> set (nat_toString n)"
proof (induction n rule: nat_toString.induct)
  case (1 n)
  show ?case
  proof (cases "n < 10")
    case True
    then show ?thesis
      using digit_char_no_dot [of n] by (subst nat_toString.simps) auto
  next
    case False
    moreover have "digit_char (n mod 10) \<noteq> CHR ''.''"
      by (rule digit_char_no_dot) simp
    ultimately show ?thesis
      using 1 by (subst nat_toString.simps) auto
  qed
qed

lemma bigint_toString_no_dot: "CHR ''.'' \<notin> set (bigint_toString b)"
  by (simp add: bigint_toString_def nat_toString_no_dot)

lemma sdiv_smod_exact:
  fixes b d :: int
  assumes "0 < d" and "d dvd b"
  shows "b sdiv d = b div d" and "b smod d = 0"
proof -
  from assms(2) obtain q where q: "b = d * q" ..
  with assms(1) have "\<bar>b\<bar> div \<bar>d\<bar> = \<bar>q\<bar>" and "sgn b = sgn q" and "\<bar>b\<bar> mod \<bar>d\<bar> = 0"
    by (simp_all add: abs_mult sgn_mult)
  with assms(1) q show "b sdiv d = b div d" and "b smod d = 0"
    by (simp_all add: signed_divide_int_def signed_modulo_int_def mult_sgn_abs)
qed

lemma formatTokenBalance_whole:
  assumes "bigint_pow10 pw decimals = Inr divisor" and "divisor \<noteq> 0"
    and "balance smod divisor = 0"
  shows "formatTokenBalance pw balance decimals = Inr (bigint_toString (balance sdiv divisor))"
  using assms by (simp add: formatTokenBalance_def)

text \<open>
  What holds of the formatting for every balance. The raw balance 1500000 with precision 6
  gives \<open>1.5\<close>. With precision 0 every raw balance is formatted as its decimal integer
  string. Whenever the remainder of the balance by the divisor \<^verbatim>\<open>BigInt(10 ** decimals)\<close> is
  zero, the formatted string has no decimal point. For precisions 0 to 22 the divisor is
  the exact power of ten, so there every balance that is a multiple of \<open>10 ^ decimals\<close> is
  formatted as the integer string of the quotient, without a decimal point.
\<close>

lemma formatTokenBalance_exact:
  "formatTokenBalance pw 1500000 6 = Inr ''1.5''
   \<and> formatTokenBalance pw balance 0 = Inr (bigint_toString balance)
   \<and> (\<forall>divisor s. bigint_pow10 pw decimals = Inr divisor
          \<and> balance smod divisor = 0
          \<and> formatTokenBalance pw balance decimals = Inr s
        \<longrightarrow> CHR ''.'' \<notin> set s)
   \<and> (0 \<le> decimals \<and> decimals \<le> 22 \<and> 10 ^ nat decimals dvd balance
        \<longrightarrow> formatTokenBalance pw balance decimals
              = Inr (bigint_toString (balance div 10 ^ nat decimals))
            \<and> CHR ''.'' \<notin> set (bigint_toString (balance div 10 ^ nat decimals)))"
proof (intro conjI allI impI)
  have p6: "bigint_pow10 pw 6 = Inr 1000000"
    by (simp add: bigint_pow10_def)
  have "(1500000::int) sdiv 1000000 = 1" and "(1500000::int) smod 1000000 = 500000"
    by (simp_all add: signed_divide_int_def signed_modulo_int_def)
  moreover have "bigint_toString 1 = ''1''"
    by (simp add: toString_eval)
  moreover have "bigint_toString 500000 = ''500000''"
    by (simp add: toString_eval)
  moreover have "trimTrailingZeros (padStart0 ''500000'' (nat 6)) = ''5''"
    by (simp add: trimTrailingZeros_def padStart0_def)
  ultimately show "formatTokenBalance pw 1500000 6 = Inr ''1.5''"
    using p6 by (simp add: formatTokenBalance_def)
next
  have "bigint_pow10 pw 0 = Inr 1"
    by (simp add: bigint_pow10_def)
  moreover have "balance sdiv 1 = balance" and "balance smod 1 = 0"
    by (simp_all add: signed_divide_int_def signed_modulo_int_def mult_sgn_abs)
  ultimately show "formatTokenBalance pw balance 0 = Inr (bigint_toString balance)"
    by (simp add: formatTokenBalance_def)
next
  fix divisor s
  assume a: "bigint_pow10 pw decimals = Inr divisor
          \<and> balance smod divisor = 0
          \<and> formatTokenBalance pw balance decimals = Inr s"
  then have "divisor \<noteq> 0"
    by (auto simp: formatTokenBalance_def)
  with a have "s = bigint_toString (balance sdiv divisor)"
    using formatTokenBalance_whole [of pw decimals divisor balance] by simp
  then show "CHR ''.'' \<notin> set s"
    by (simp add: bigint_toString_no_dot)
next
  assume a: "0 \<le> decimals \<and> decimals \<le> 22 \<and> 10 ^ nat decimals dvd balance"
  let ?d = "(10::int) ^ nat decimals"
  from a have p: "bigint_pow10 pw decimals = Inr ?d"
    by (simp add: bigint_pow10_def)
  have pos: "0 < ?d" by simp
  from a have ex: "balance sdiv ?d = balance div ?d" "balance smod ?d = 0"
    using sdiv_smod_exact [OF pos, of balance] by simp_all
  from p pos ex show "formatTokenBalance pw balance decimals
              = Inr (bigint_toString (balance div 10 ^ nat decimals))"
    using formatTokenBalance_whole [of pw decimals ?d balance] by simp
next
  show "CHR ''.'' \<notin> set (bigint_toString (balance div 10 ^ nat decimals))"
    by (rule bigint_toString_no_dot)
qed

lemma formatTokenBalance_exact_example:
  "formatTokenBalance (\<lambda>_. 0) 2000000 6 = Inr ''2''"
proof -
  have "(10::int) ^ nat 6 = 1000000" by simp
  moreover have "bigint_toString (2000000 div 1000000) = ''2''"
    by (simp add: toString_eval)
  ultimately show ?thesis
    using formatTokenBalance_exact [of "\<lambda>_. 0" 2000000 6] by simp
qed

lemma formatTokenBalance_nearest_double:
  "formatTokenBalance (\<lambda>d. 999999999999999983222784) (10 ^ 24) 24
     = Inr ''1.000000000000000016777216''"
proof -
  have "bigint_pow10 (\<lambda>d. 999999999999999983222784) 24 = Inr 999999999999999983222784"
    by (simp add: bigint_pow10_def)
  moreover have "(10 ^ 24 :: int) sdiv 999999999999999983222784 = 1"
    and "(10 ^ 24 :: int) smod 999999999999999983222784 = 16777216"
    by (simp_all add: signed_divide_int_def signed_modulo_int_def)
  moreover have "bigint_toString 1 = ''1''"
    by (simp add: toString_eval)
  moreover have "bigint_toString 16777216 = ''16777216''"
    by (simp add: toString_eval)
  moreover have "trimTrailingZeros (padStart0 ''16777216'' (nat 24)) = ''000000000000000016777216''"
    by (simp add: trimTrailingZeros_def padStart0_def eval_nat_numeral)
  ultimately show ?thesis
    by (simp add: formatTokenBalance_def)
qed

lemma formatTokenBalance_next_double:
  "formatTokenBalance (\<lambda>d. 1000000000000000117440512) (10 ^ 24) 24 = Inr ''0.1''"
proof -
  have "bigint_pow10 (\<lambda>d. 1000000000000000117440512) 24 = Inr 1000000000000000117440512"
    by (simp add: bigint_pow10_def)
  moreover have "(10 ^ 24 :: int) sdiv 1000000000000000117440512 = 0"
    and "(10 ^ 24 :: int) smod 1000000000000000117440512 = 1000000000000000000000000"
    by (simp_all add: signed_divide_int_def signed_modulo_int_def)
  moreover have "bigint_toString 0 = ''0''"
    by (simp add: toString_eval)
  moreover have "bigint_toString 1000000000000000000000000 = ''1000000000000000000000000''"
    by (simp add: toString_eval)
  moreover have "trimTrailingZeros (padStart0 ''1000000000000000000000000'' (nat 24)) = ''1''"
    by (simp add: trimTrailingZeros_def padStart0_def)
  ultimately show ?thesis
    by (simp add: formatTokenBalance_def)
qed

text \<open>
  C7 fails on the code from precision 23 up. The claim says that a balance whose fractional
  part consists of zeros only is formatted without a decimal point. The raw balance
  \<open>10 ^ 24\<close> of a token with precision 24 is exactly one token: it is a multiple of
  \<open>10 ^ 24\<close>, and the string the claim asks for is \<open>1\<close>. The code takes as divisor
  \<^verbatim>\<open>BigInt(10 ** 24)\<close>, the integer value of a double, and \<open>10 ^ 24\<close> is not a double: the
  doubles next to it are 999999999999999983222784, the nearest one, and
  1000000000000000117440512. With the nearest double as the divisor the code returns
  \<open>1.000000000000000016777216\<close>, with the other one it returns \<open>0.1\<close>; both have a decimal
  point.
\<close>

theorem C7_formatTokenBalance_precision_24:
  "(10::int) ^ 24 dvd 10 ^ 24
   \<and> bigint_toString (10 ^ 24 div 10 ^ 24) = ''1''
   \<and> formatTokenBalance (\<lambda>d. 999999999999999983222784) (10 ^ 24) 24
        = Inr ''1.000000000000000016777216''
   \<and> CHR ''.'' \<in> set ''1.000000000000000016777216''
   \<and> formatTokenBalance (\<lambda>d. 1000000000000000117440512) (10 ^ 24) 24 = Inr ''0.1''
   \<and> CHR ''.'' \<in> set ''0.1''"
proof -
  have "bigint_toString (10 ^ 24 div 10 ^ 24) = ''1''"
    by (simp add: toString_eval)
  with formatTokenBalance_nearest_double formatTokenBalance_next_double show ?thesis
    by simp
qed

section \<open>Registry lookup\<close>

lemma getNetworkConfigIn_first:
  "getNetworkConfigIn configs cid = Some c \<longleftrightarrow>
     (\<exists>i<length configs. c = configs ! i \<and> cfg_chainId (configs ! i) = cid
        \<and> (\<forall>j<i. cfg_chainId (configs ! j) \<noteq> cid))"
  unfolding getNetworkConfigIn_def find_Some_iff by blast

lemma getNetworkConfigIn_None:
  "getNetworkConfigIn configs cid = None \<longleftrightarrow> cid \<notin> cfg_chainId ` set configs"
  unfolding getNetworkConfigIn_def find_None_iff by auto

lemma getNetworkConfig_999: "getNetworkConfig 999 = Some (networkConfigs ! 19)"
  by (simp add: getNetworkConfig_def getNetworkConfigIn_def networkConfigs_def)

text \<open>
  C4. Lookup returns the first entry, in the order of the table, whose chain id is the one
  asked for, for every table and every chain id that occurs in it (so also for one that
  occurs several times): no entry before the returned one has that id. In the table of
  the source the id 999 occurs twice, as HyperEVM (position 19) and later as Hyperliquid
  (position 26), and the lookup of 999 returns the HyperEVM entry.
\<close>

theorem C4_lookup_first_match:
  "(cid \<in> cfg_chainId ` set configs \<longrightarrow>
      (\<exists>i<length configs. getNetworkConfigIn configs cid = Some (configs ! i)
          \<and> cfg_chainId (configs ! i) = cid
          \<and> (\<forall>j<i. cfg_chainId (configs ! j) \<noteq> cid)))
   \<and> map cfg_name (filter (\<lambda>c. cfg_chainId c = 999) networkConfigs)
         = [''HyperEVM'', ''Hyperliquid'']
   \<and> cfg_name (networkConfigs ! 19) = ''HyperEVM''
   \<and> cfg_name (networkConfigs ! 26) = ''Hyperliquid''
   \<and> getNetworkConfig 999 = Some (networkConfigs ! 19)
   \<and> getNetworkConfig 999 \<noteq> Some (networkConfigs ! 26)"
proof (intro conjI impI)
  assume "cid \<in> cfg_chainId ` set configs"
  then obtain c where "getNetworkConfigIn configs cid = Some c"
    using getNetworkConfigIn_None [of configs cid] by (cases "getNetworkConfigIn configs cid") auto
  then show "\<exists>i<length configs. getNetworkConfigIn configs cid = Some (configs ! i)
          \<and> cfg_chainId (configs ! i) = cid
          \<and> (\<forall>j<i. cfg_chainId (configs ! j) \<noteq> cid)"
    using getNetworkConfigIn_first [of configs cid c] by auto
next
  show "map cfg_name (filter (\<lambda>c. cfg_chainId c = 999) networkConfigs)
         = [''HyperEVM'', ''Hyperliquid'']"
    by (simp add: networkConfigs_def)
next
  show "cfg_name (networkConfigs ! 19) = ''HyperEVM''"
    by (simp add: networkConfigs_def)
next
  show "cfg_name (networkConfigs ! 26) = ''Hyperliquid''"
    by (simp add: networkConfigs_def)
next
  show "getNetworkConfig 999 = Some (networkConfigs ! 19)"
    by (rule getNetworkConfig_999)
next
  have "cfg_name (networkConfigs ! 19) \<noteq> cfg_name (networkConfigs ! 26)"
    by (simp add: networkConfigs_def)
  then have "networkConfigs ! 19 \<noteq> networkConfigs ! 26"
    by auto
  then show "getNetworkConfig 999 \<noteq> Some (networkConfigs ! 26)"
    by (simp add: getNetworkConfig_999)
qed

theorem C4_lookup_first_match_witness:
  "999 \<in> cfg_chainId ` set networkConfigs
   \<and> (\<exists>i<length networkConfigs.
         getNetworkConfigIn networkConfigs 999 = Some (networkConfigs ! i)
         \<and> cfg_chainId (networkConfigs ! i) = 999)"
proof -
  have "cfg_chainId (networkConfigs ! 19) = 999" and "19 < length networkConfigs"
    by (simp_all add: networkConfigs_def)
  then have h: "999 \<in> cfg_chainId ` set networkConfigs"
    by (metis imageI nth_mem)
  with C4_lookup_first_match [of 999 networkConfigs] show ?thesis
    by blast
qed

section \<open>Endpoint rotation\<close>

lemma rotationLoop_unfold:
  assumes "rotationLoop env net c wa toks urls m a = (res, evs)"
  shows "(\<not> a \<le> m \<and> evs = [] \<and> res = Inl (BatchExhausted m))
       \<or> (a \<le> m \<and> (rotatingEndpoint urls a = None \<or> rotatingEndpoint urls a = Some [])
            \<and> rotationLoop env net c wa toks urls m (a + 1) = (res, evs))
       \<or> (a \<le> m \<and> (\<exists>u. rotatingEndpoint urls a = Some u \<and> u \<noteq> []
            \<and> ((\<exists>b. executeMulticallWithRPC env c wa toks u (net a) = Inr b
                     \<and> res = Inr b \<and> evs = [Attempt a u])
               \<or> (\<exists>evs'. rotationLoop env net c wa toks urls m (a + 1) = (res, evs')
                     \<and> evs = Attempt a u # (if a < m then [Delay 500] else []) @ evs'))))"
proof (cases "a \<le> m")
  case False
  with assms show ?thesis
    by (subst (asm) rotationLoop.simps) auto
next
  case le: True
  show ?thesis
  proof (cases "rotatingEndpoint urls a")
    case None
    with le assms show ?thesis
      by (subst (asm) rotationLoop.simps) simp
  next
    case (Some u)
    show ?thesis
    proof (cases "u = []")
      case True
      with le Some assms show ?thesis
        by (subst (asm) rotationLoop.simps) simp
    next
      case ne: False
      show ?thesis
      proof (cases "executeMulticallWithRPC env c wa toks u (net a)")
        case (Inr b)
        with le Some ne assms have "res = Inr b \<and> evs = [Attempt a u]"
          by (subst (asm) rotationLoop.simps) auto
        with le Some ne Inr show ?thesis by blast
      next
        case (Inl e)
        obtain res' evs' where nxt:
          "rotationLoop env net c wa toks urls m (a + 1) = (res', evs')"
          by (cases "rotationLoop env net c wa toks urls m (a + 1)") blast
        with le Some ne Inl assms
        have "res = res' \<and> evs = Attempt a u # (if a < m then [Delay 500] else []) @ evs'"
          by (subst (asm) rotationLoop.simps) auto
        with le Some ne nxt show ?thesis by blast
      qed
    qed
  qed
qed

lemma rotationLoop_past_end:
  "\<not> a \<le> m \<Longrightarrow> rotationLoop env net c wa toks urls m a = (Inl (BatchExhausted m), [])"
  by (subst rotationLoop.simps) simp

lemma rotationLoop_trace:
  assumes "rotationLoop env net c wa toks urls m a = (res, evs)"
  shows "(\<forall>k u. Attempt k u \<in> set evs \<longrightarrow>
             a \<le> k \<and> k \<le> m \<and> rotatingEndpoint urls k = Some u \<and> u \<noteq> [])
       \<and> length (attemptedEndpoints evs) \<le> Suc m - a
       \<and> (\<forall>e \<in> set evs. is_attempt e \<or> e = Delay 500)
       \<and> (evs = [] \<or> is_attempt (hd evs))
       \<and> (\<forall>i. Suc i < length evs \<and> is_attempt (evs ! i) \<longrightarrow> evs ! Suc i = Delay 500)
       \<and> (\<forall>i. Suc i < length evs \<and> evs ! i = Delay 500 \<longrightarrow> is_attempt (evs ! Suc i))"
  using assms
proof (induction "Suc m - a" arbitrary: a res evs rule: less_induct)
  case less
  note run = less.prems
  from rotationLoop_unfold [OF run]
  consider (over) "\<not> a \<le> m" "evs = []"
    | (skip) "a \<le> m" "rotationLoop env net c wa toks urls m (a + 1) = (res, evs)"
    | (hit) u where "a \<le> m" "rotatingEndpoint urls a = Some u" "u \<noteq> []" "evs = [Attempt a u]"
    | (miss) u evs' where "a \<le> m" "rotatingEndpoint urls a = Some u" "u \<noteq> []"
        "rotationLoop env net c wa toks urls m (a + 1) = (res, evs')"
        "evs = Attempt a u # (if a < m then [Delay 500] else []) @ evs'"
    by blast
  then show ?case
  proof cases
    case over
    then show ?thesis by simp
  next
    case skip
    then have "Suc m - (a + 1) < Suc m - a" by arith
    from less.hyps [OF this skip(2)] show ?thesis
      by (auto simp: Suc_diff_le) (metis Suc_leD)+
  next
    case hit
    then show ?thesis by simp
  next
    case miss
    then have dec: "Suc m - (a + 1) < Suc m - a" by arith
    note ih = less.hyps [OF dec miss(4)]
    show ?thesis
    proof (cases "a < m")
      case False
      with miss(1) have "\<not> a + 1 \<le> m" by simp
      from rotationLoop_past_end [OF this, of env net c wa toks urls] miss(4)
      have "evs' = []" by simp
      with miss False show ?thesis by simp
    next
      case True
      with miss(5) have evs: "evs = Attempt a u # Delay 500 # evs'" by simp
      have p1: "\<forall>k v. Attempt k v \<in> set evs \<longrightarrow>
                  a \<le> k \<and> k \<le> m \<and> rotatingEndpoint urls k = Some v \<and> v \<noteq> []"
        using ih miss(1,2,3) evs by (auto intro: Suc_leD)
      have p2: "length (attemptedEndpoints evs) \<le> Suc m - a"
      proof -
        from ih have "length (attemptedEndpoints evs') \<le> Suc m - (a + 1)" by blast
        with True have "Suc (length (attemptedEndpoints evs')) \<le> Suc m - a" by arith
        with evs show ?thesis by simp
      qed
      have p3: "\<forall>e \<in> set evs. is_attempt e \<or> e = Delay 500"
        using ih evs by simp
      have p4: "evs = [] \<or> is_attempt (hd evs)"
        using evs by simp
      have p5: "evs ! Suc i = Delay 500" if "Suc i < length evs \<and> is_attempt (evs ! i)" for i
      proof (cases i)
        case 0
        then show ?thesis using evs by simp
      next
        case (Suc j)
        show ?thesis
        proof (cases j)
          case 0
          with Suc that evs show ?thesis by simp
        next
          case (Suc l)
          with \<open>i = Suc j\<close> that evs have "Suc l < length evs' \<and> is_attempt (evs' ! l)"
            by simp
          with ih have "evs' ! Suc l = Delay 500" by blast
          with Suc \<open>i = Suc j\<close> evs show ?thesis by simp
        qed
      qed
      have p6: "is_attempt (evs ! Suc i)" if "Suc i < length evs \<and> evs ! i = Delay 500" for i
      proof (cases i)
        case 0
        then show ?thesis using evs that by simp
      next
        case (Suc j)
        show ?thesis
        proof (cases j)
          case 0
          with Suc that evs have "evs' \<noteq> []" by auto
          with ih have "is_attempt (hd evs')" by blast
          with \<open>evs' \<noteq> []\<close> 0 Suc evs show ?thesis by (simp add: hd_conv_nth)
        next
          case (Suc l)
          with \<open>i = Suc j\<close> that evs have "Suc l < length evs' \<and> evs' ! l = Delay 500"
            by simp
          with ih have "is_attempt (evs' ! Suc l)" by blast
          with Suc \<open>i = Suc j\<close> evs show ?thesis by simp
        qed
      qed
      from p1 p2 p3 p4 p5 p6 show ?thesis by blast
    qed
  qed
qed

text \<open>
  C2. A batch is executed (with the default of 3 attempts) by at most 3 aggregate calls.
  The call of attempt \<open>k\<close> has \<open>1 \<le> k \<le> 3\<close> and goes to the endpoint at position
  \<open>(k - 1) mod endpointCount\<close> of the endpoint list it was given, which is then not empty.
  The log of a batch consists of attempts and pauses of 500 ms only, starts with an
  attempt, every attempt that is not the last entry is followed by a pause of 500 ms, and
  every pause that is not the last entry is followed by an attempt: between two
  consecutive attempts there is exactly one pause of 500 ms. At most 3 endpoints are
  attempted.
\<close>

theorem C2_endpoint_rotation:
  assumes "checkSingleBatchWithRPCRotation env net chainId walletAddress tokens rpcUrls 3
             = (outcome, events)"
  shows "length (attemptedEndpoints events) \<le> 3
       \<and> card (set (attemptedEndpoints events)) \<le> 3
       \<and> (\<forall>k rpcUrl. Attempt k rpcUrl \<in> set events \<longrightarrow>
             1 \<le> k \<and> k \<le> 3 \<and> rpcUrls \<noteq> []
             \<and> rpcUrl = rpcUrls ! ((k - 1) mod length rpcUrls))
       \<and> (\<forall>e \<in> set events. is_attempt e \<or> e = Delay 500)
       \<and> (events = [] \<or> is_attempt (hd events))
       \<and> (\<forall>i. Suc i < length events \<and> is_attempt (events ! i) \<longrightarrow> events ! Suc i = Delay 500)
       \<and> (\<forall>i. Suc i < length events \<and> events ! i = Delay 500
              \<longrightarrow> is_attempt (events ! Suc i))"
proof -
  from assms have run:
    "rotationLoop env net chainId walletAddress tokens rpcUrls 3 1 = (outcome, events)"
    by (simp add: checkSingleBatchWithRPCRotation_def)
  note t = rotationLoop_trace [OF run]
  from t have len: "length (attemptedEndpoints events) \<le> 3" by simp
  have "card (set (attemptedEndpoints events)) \<le> length (attemptedEndpoints events)"
    by (rule card_length)
  with len have card: "card (set (attemptedEndpoints events)) \<le> 3" by simp
  have sel: "1 \<le> k \<and> k \<le> 3 \<and> rpcUrls \<noteq> [] \<and> rpcUrl = rpcUrls ! ((k - 1) mod length rpcUrls)"
    if "Attempt k rpcUrl \<in> set events" for k rpcUrl
  proof -
    from t that have "1 \<le> k \<and> k \<le> 3 \<and> rotatingEndpoint rpcUrls k = Some rpcUrl"
      by blast
    then show ?thesis
      by (auto simp: rotatingEndpoint_def split: if_splits)
  qed
  from len card sel t show ?thesis by blast
qed

lemma getNetworkConfig_1: "getNetworkConfig 1 = Some (networkConfigs ! 0)"
  by (simp add: getNetworkConfig_def getNetworkConfigIn_def networkConfigs_def)

theorem C2_endpoint_rotation_witness:
  "checkSingleBatchWithRPCRotation deadEnv (\<lambda>attempt. None) 1 ''0xw'' [] [''a'', ''b''] 3
     = (Inl (BatchExhausted 3),
        [Attempt 1 ''a'', Delay 500, Attempt 2 ''b'', Delay 500, Attempt 3 ''a''])
   \<and> length (attemptedEndpoints
        [Attempt 1 ''a'', Delay 500, Attempt 2 ''b'', Delay 500, Attempt 3 ''a'']) \<le> 3
   \<and> Attempt 3 ''a'' \<in> set [Attempt 1 ''a'', Delay 500, Attempt 2 ''b'', Delay 500, Attempt 3 ''a'']
   \<and> ''a'' = [''a'', ''b''] ! ((3 - 1) mod length [''a'', ''b''])"
proof -
  have fail: "executeMulticallWithRPC deadEnv 1 ''0xw'' [] u None = Inl (MulticallFailed 1)" for u
    by (simp add: executeMulticallWithRPC_def executeMulticall_def getClientWithRPC_def
        getNetworkConfig_1)
  have run: "checkSingleBatchWithRPCRotation deadEnv (\<lambda>attempt. None) 1 ''0xw'' [] [''a'', ''b''] 3
     = (Inl (BatchExhausted 3),
        [Attempt 1 ''a'', Delay 500, Attempt 2 ''b'', Delay 500, Attempt 3 ''a''])"
  proof -
    let ?loop = "rotationLoop deadEnv (\<lambda>attempt. None) 1 ''0xw'' [] [''a'', ''b''] 3"
    have e1: "rotatingEndpoint [''a'', ''b''] 1 = Some ''a''"
      and e2: "rotatingEndpoint [''a'', ''b''] 2 = Some ''b''"
      and e3: "rotatingEndpoint [''a'', ''b''] 3 = Some ''a''"
      by (simp_all add: rotatingEndpoint_def eval_nat_numeral)
    have s4: "?loop 4 = (Inl (BatchExhausted 3), [])"
      by (subst rotationLoop.simps) simp
    have s3: "?loop 3 = (Inl (BatchExhausted 3), [Attempt 3 ''a''])"
      by (subst rotationLoop.simps) (simp add: e3 fail s4)
    have s2: "?loop 2 = (Inl (BatchExhausted 3), [Attempt 2 ''b'', Delay 500, Attempt 3 ''a''])"
      by (subst rotationLoop.simps) (simp add: e2 fail s3)
    have s1: "?loop 1 = (Inl (BatchExhausted 3),
        [Attempt 1 ''a'', Delay 500, Attempt 2 ''b'', Delay 500, Attempt 3 ''a''])"
      by (subst rotationLoop.simps) (simp del: One_nat_def add: e1 fail s2)
    then show ?thesis
      by (simp add: checkSingleBatchWithRPCRotation_def)
  qed
  from C2_endpoint_rotation [OF run] show ?thesis
    using run by simp
qed

section \<open>The empty token list\<close>

text \<open>
  C10. For the empty token list \<^verbatim>\<open>checkTokenBalances\<close> and \<^verbatim>\<open>checkTokenBalancesBatched\<close>
  return the empty result at once: the returned log is empty, so no endpoint is attempted,
  no aggregate call is made and no pause is taken, whatever the chain, the wallet and the
  environment are. No batch is formed from the empty list: \<^verbatim>\<open>createBatches\<close> gives no
  batch for it, for every batch size.
\<close>

theorem C10_empty_token_list:
  "checkTokenBalances env net chainId walletAddress [] = Some ([], [])
   \<and> checkTokenBalancesBatched env net chainId walletAddress [] = Some ([], [])
   \<and> createBatches ([] :: TokenInfo list) batchSize = Some []"
proof -
  have "createBatches_loop ([] :: TokenInfo list) batchSize 0 [] = Some []"
    by (subst createBatches_loop.simps) simp
  then show ?thesis
    by (simp add: checkTokenBalances_def checkTokenBalancesBatched_def createBatches_def)
qed

section \<open>Records produced from a batch\<close>

lemma balanceLoop_length:
  "length (balanceLoop env tokens results i acc)
     \<le> length acc + length (filter res_success (drop i (take (length tokens) results)))"
proof (induction env tokens results i acc rule: balanceLoop.induct)
  case (1 env tokens results i acc)
  show ?case
  proof (cases "i < length tokens")
    case False
    then show ?thesis by (subst balanceLoop.simps) simp
  next
    case inTokens: True
    show ?thesis
    proof (cases "i < length results")
      case False
      with inTokens have "balanceLoop env tokens results i acc
                            = balanceLoop env tokens results (i + 1) acc"
        by (subst balanceLoop.simps) simp
      moreover from False have "drop i (take (length tokens) results) = []"
        and "drop (i + 1) (take (length tokens) results) = []"
        by simp_all
      ultimately show ?thesis
        using "1.IH"(1) [OF inTokens] False by simp
    next
      case inResults: True
      with inTokens have "i < length (take (length tokens) results)" by simp
      then have split: "drop i (take (length tokens) results)
          = (take (length tokens) results) ! i # drop (i + 1) (take (length tokens) results)"
        using Cons_nth_drop_Suc [of i "take (length tokens) results"] by simp
      from inTokens have nth: "(take (length tokens) results) ! i = results ! i" by simp
      show ?thesis
      proof (cases "res_success (results ! i)")
        case False
        with inTokens inResults have "balanceLoop env tokens results i acc
                            = balanceLoop env tokens results (i + 1) acc"
          by (subst balanceLoop.simps) simp
        moreover have "length (balanceLoop env tokens results (i + 1) acc)
           \<le> length acc
               + length (filter res_success (drop (i + 1) (take (length tokens) results)))"
          using "1.IH"(2) [OF inTokens _ refl refl] inResults False by simp
        ultimately show ?thesis
          using split nth False by simp
      next
        case ok: True
        show ?thesis
        proof (cases "balanceRecord env (tokens ! i) (results ! i)")
          case (Inr r)
          with inTokens inResults ok have "balanceLoop env tokens results i acc
                            = balanceLoop env tokens results (i + 1) (acc @ [r])"
            by (subst balanceLoop.simps) simp
          moreover have "length (balanceLoop env tokens results (i + 1) (acc @ [r]))
             \<le> length (acc @ [r])
                 + length (filter res_success (drop (i + 1) (take (length tokens) results)))"
            using "1.IH"(4) [OF inTokens _ refl refl _ Inr] inResults ok by simp
          ultimately show ?thesis
            using split nth ok by simp
        next
          case (Inl e)
          with inTokens inResults ok have "balanceLoop env tokens results i acc
                            = balanceLoop env tokens results (i + 1) acc"
            by (subst balanceLoop.simps) simp
          moreover have "length (balanceLoop env tokens results (i + 1) acc)
             \<le> length acc
                 + length (filter res_success (drop (i + 1) (take (length tokens) results)))"
            using "1.IH"(3) [OF inTokens _ refl refl _ Inl] inResults ok by simp
          ultimately show ?thesis
            using split nth ok by simp
        qed
      qed
    qed
  qed
qed

lemma executeMulticallWithRPC_records:
  assumes "executeMulticallWithRPC env chainId walletAddress tokens rpcUrl response = Inr records"
  shows "\<forall>r \<in> set records. 0 < bal_balance r"
    and "response = Some results \<Longrightarrow>
           length records \<le> length (filter res_success (take (length tokens) results))"
proof -
  from assms obtain rs where
    rs: "executeMulticall chainId
           (map (\<lambda>token. createBalanceOfCall (tok_address token) walletAddress) tokens)
           rpcUrl response = Inr rs"
    and rec: "records = filter (\<lambda>result. bal_balance result > 0) (balanceLoop env tokens rs 0 [])"
    by (auto simp: executeMulticallWithRPC_def split: sum.splits)
  from rec show "\<forall>r \<in> set records. 0 < bal_balance r" by simp
  assume "response = Some results"
  with rs have "rs = results"
    by (auto simp: executeMulticall_def split: sum.splits option.splits)
  with rec have "length records \<le> length (balanceLoop env tokens results 0 [])"
    by simp
  also have "\<dots> \<le> length (filter res_success (take (length tokens) results))"
    using balanceLoop_length [of env tokens results 0 "[]"] by simp
  finally show "length records \<le> length (filter res_success (take (length tokens) results))" .
qed

lemma rotationLoop_records:
  assumes "rotationLoop env net c wa toks urls m a = (Inr records, evs)"
  shows "\<forall>r \<in> set records. 0 < bal_balance r"
  using assms
proof (induction "Suc m - a" arbitrary: a evs rule: less_induct)
  case less
  from rotationLoop_unfold [OF less.prems]
  consider (skip) "a \<le> m" "rotationLoop env net c wa toks urls m (a + 1) = (Inr records, evs)"
    | (hit) u where "executeMulticallWithRPC env c wa toks u (net a) = Inr records"
    | (miss) evs' where "a \<le> m"
        "rotationLoop env net c wa toks urls m (a + 1) = (Inr records, evs')"
    by auto
  then show ?case
  proof cases
    case skip
    then have "Suc m - (a + 1) < Suc m - a" by arith
    from less.hyps [OF this skip(2)] show ?thesis .
  next
    case hit
    then show ?thesis by (rule executeMulticallWithRPC_records(1))
  next
    case miss
    then have "Suc m - (a + 1) < Suc m - a" by arith
    from less.hyps [OF this miss(2)] show ?thesis .
  qed
qed

lemma runBatch_records:
  "\<forall>r \<in> set (fst (runBatch env net c wa urls numbered)). 0 < bal_balance r"
proof (cases "checkSingleBatchWithRPCRotation env (net (fst numbered)) c wa (snd numbered) urls 3")
  case (Pair outcome events)
  show ?thesis
  proof (cases outcome)
    case (Inl e)
    with Pair show ?thesis by (simp add: runBatch_def)
  next
    case (Inr records)
    with Pair have "rotationLoop env (net (fst numbered)) c wa (snd numbered) urls 3 1
                      = (Inr records, events)"
      by (simp add: checkSingleBatchWithRPCRotation_def)
    from rotationLoop_records [OF this] Pair Inr show ?thesis
      by (simp add: runBatch_def)
  qed
qed

lemma groupLoop_records:
  "\<forall>rs \<in> set (fst (groupLoop env net c wa urls batches i)). \<forall>r \<in> set rs. 0 < bal_balance r"
proof (induction env net c wa urls batches i rule: groupLoop.induct)
  case (1 env net c wa urls batches i)
  show ?case
  proof (cases "i < length batches")
    case False
    then show ?thesis by (subst groupLoop.simps) simp
  next
    case True
    obtain rest evs where nxt:
      "groupLoop env net c wa urls batches (i + MAX_CONCURRENT_BATCHES) = (rest, evs)"
      by (cases "groupLoop env net c wa urls batches (i + MAX_CONCURRENT_BATCHES)") blast
    from "1.IH" [OF True refl refl] nxt
    have ih: "\<forall>rs \<in> set rest. \<forall>r \<in> set rs. 0 < bal_balance r" by simp
    have "fst (groupLoop env net c wa urls batches i)
            = map fst (map (runBatch env net c wa urls)
                (enumerate i (slice batches i (i + MAX_CONCURRENT_BATCHES)))) @ rest"
      using True nxt by (subst groupLoop.simps) (simp add: Let_def)
    with ih runBatch_records [of env net c wa urls] show ?thesis
      by auto
  qed
qed

lemma checkTokenBalances_records:
  assumes "checkTokenBalances env net c wa toks = Some (balances, events)"
  shows "\<forall>r \<in> set balances. 0 < bal_balance r"
proof (cases "length toks = 0")
  case True
  with assms show ?thesis by (simp add: checkTokenBalances_def)
next
  case False
  with assms have "\<exists>batches urls rs evs.
      groupLoop env net c wa urls batches 0 = (rs, evs) \<and> balances = concat rs"
    by (auto simp: checkTokenBalances_def checkTokenBalancesBatched_def Let_def
        split: option.splits prod.splits)
  then obtain batches urls rs evs where
    "groupLoop env net c wa urls batches 0 = (rs, evs)" and "balances = concat rs"
    by blast
  with groupLoop_records [of env net c wa urls batches 0] show ?thesis
    by auto
qed

section \<open>The health cache\<close>

lemma probeRPC_eq:
  "probeRPC env cacheKey rpcUrl w =
     (healthProbe env (ticks w) rpcUrl,
      w\<lparr>ticks := Suc (Suc (ticks w)), log := log w @ [HealthProbe rpcUrl],
        healthCache := (healthCache w)
          (cacheKey \<mapsto> \<lparr>isHealthy = healthProbe env (ticks w) rpcUrl,
                         lastCheck = clock env (Suc (ticks w))\<rparr>)\<rparr>)"
  by (simp add: probeRPC_def interact_def dateNow_def Let_def)

text \<open>
  C5. Let the health cache hold, for an endpoint, the verdict \<open>verdict\<close> recorded at time
  \<open>T\<close>, and let \<open>T'\<close> be the reading of the clock at the next probe of that endpoint. If
  \<open>T' - T < TTL\<close> the probe returns \<open>verdict\<close>, the caches and the log are as before (no
  request is made), only the clock has been read. If \<open>T' - T \<ge> TTL\<close> the probe makes one
  request to the endpoint, returns its outcome and stores it in the cache in place of the
  old verdict, with the time read after the request. \<open>TTL\<close> is 5 minutes, in milliseconds.
\<close>

theorem C5_health_verdict_ttl:
  assumes "healthCache w (''health_'' @ rpcUrl) = Some \<lparr>isHealthy = verdict, lastCheck = T\<rparr>"
  shows "(clock env (ticks w) - T < HEALTH_CHECK_TTL \<longrightarrow>
            checkRPCHealth env rpcUrl w = (verdict, w\<lparr>ticks := Suc (ticks w)\<rparr>))
       \<and> (clock env (ticks w) - T \<ge> HEALTH_CHECK_TTL \<longrightarrow>
            checkRPCHealth env rpcUrl w =
              (healthProbe env (Suc (ticks w)) rpcUrl,
               w\<lparr>ticks := Suc (Suc (Suc (ticks w))),
                 log := log w @ [HealthProbe rpcUrl],
                 healthCache := (healthCache w)
                   (''health_'' @ rpcUrl \<mapsto>
                      \<lparr>isHealthy = healthProbe env (Suc (ticks w)) rpcUrl,
                       lastCheck = clock env (Suc (Suc (ticks w)))\<rparr>)\<rparr>))
       \<and> HEALTH_CHECK_TTL = 300000"
  using assms
  by (simp add: checkRPCHealth_def probeRPC_eq dateNow_def HEALTH_CHECK_TTL_def)

theorem C5_health_verdict_ttl_witness:
  "healthCache (initialWorld\<lparr>healthCache := [''health_'' @ ''u'' \<mapsto>
        \<lparr>isHealthy = True, lastCheck = 0\<rparr>]\<rparr>) (''health_'' @ ''u'')
     = Some \<lparr>isHealthy = True, lastCheck = 0\<rparr>
   \<and> clock deadEnv 0 - 0 < HEALTH_CHECK_TTL
   \<and> fst (checkRPCHealth deadEnv ''u'' (initialWorld\<lparr>healthCache := [''health_'' @ ''u'' \<mapsto>
        \<lparr>isHealthy = True, lastCheck = 0\<rparr>]\<rparr>)) = True
   \<and> healthCache (initialWorld\<lparr>healthCache := [''health_'' @ ''u'' \<mapsto>
        \<lparr>isHealthy = True, lastCheck = - 300000\<rparr>]\<rparr>) (''health_'' @ ''u'')
     = Some \<lparr>isHealthy = True, lastCheck = - 300000\<rparr>
   \<and> clock deadEnv 0 - (- 300000) \<ge> HEALTH_CHECK_TTL
   \<and> fst (checkRPCHealth deadEnv ''u'' (initialWorld\<lparr>healthCache := [''health_'' @ ''u'' \<mapsto>
        \<lparr>isHealthy = True, lastCheck = - 300000\<rparr>]\<rparr>)) = False"
proof -
  let ?fresh = "initialWorld\<lparr>healthCache := [''health_'' @ ''u'' \<mapsto>
        \<lparr>isHealthy = True, lastCheck = 0\<rparr>]\<rparr>"
  let ?stale = "initialWorld\<lparr>healthCache := [''health_'' @ ''u'' \<mapsto>
        \<lparr>isHealthy = True, lastCheck = - 300000\<rparr>]\<rparr>"
  have c1: "healthCache ?fresh (''health_'' @ ''u'') = Some \<lparr>isHealthy = True, lastCheck = 0\<rparr>"
    by simp
  have c2: "healthCache ?stale (''health_'' @ ''u'')
              = Some \<lparr>isHealthy = True, lastCheck = - 300000\<rparr>"
    by simp
  have t1: "clock deadEnv (ticks ?fresh) - 0 < HEALTH_CHECK_TTL"
    by (simp add: deadEnv_def initialWorld_def HEALTH_CHECK_TTL_def)
  have t2: "clock deadEnv (ticks ?stale) - (- 300000) \<ge> HEALTH_CHECK_TTL"
    by (simp add: deadEnv_def initialWorld_def HEALTH_CHECK_TTL_def)
  have k: "ticks ?fresh = 0" "ticks ?stale = 0"
    by (simp_all add: initialWorld_def)
  from C5_health_verdict_ttl [OF c1, of deadEnv] t1
  have "checkRPCHealth deadEnv ''u'' ?fresh = (True, ?fresh\<lparr>ticks := Suc (ticks ?fresh)\<rparr>)"
    by blast
  then have r1: "fst (checkRPCHealth deadEnv ''u'' ?fresh) = True"
    by simp
  from C5_health_verdict_ttl [OF c2, of deadEnv] t2
  have "checkRPCHealth deadEnv ''u'' ?stale =
          (healthProbe deadEnv (Suc (ticks ?stale)) ''u'',
           ?stale\<lparr>ticks := Suc (Suc (Suc (ticks ?stale))),
             log := log ?stale @ [HealthProbe ''u''],
             healthCache := (healthCache ?stale)
               (''health_'' @ ''u'' \<mapsto>
                  \<lparr>isHealthy = healthProbe deadEnv (Suc (ticks ?stale)) ''u'',
                   lastCheck = clock deadEnv (Suc (Suc (ticks ?stale)))\<rparr>)\<rparr>)"
    by blast
  then have "fst (checkRPCHealth deadEnv ''u'' ?stale)
               = healthProbe deadEnv (Suc (ticks ?stale)) ''u''"
    by simp
  also have "\<dots> = False"
    by (simp add: deadEnv_def)
  finally have r2: "fst (checkRPCHealth deadEnv ''u'' ?stale) = False" .
  from c1 c2 t1 t2 r1 r2 k show ?thesis
    by simp
qed

section \<open>The client cache holds registered chains only\<close>

lemma checkRPCHealth_clientCache:
  "checkRPCHealth env rpcUrl w = (r, w') \<Longrightarrow> clientCache w' = clientCache w"
  by (auto simp: checkRPCHealth_def probeRPC_eq dateNow_def Let_def
      split: option.splits if_splits)

lemma firstHealthy_clientCache:
  "firstHealthy env rpcUrls w = (r, w') \<Longrightarrow> clientCache w' = clientCache w"
proof (induction rpcUrls arbitrary: w)
  case Nil
  then show ?case by simp
next
  case (Cons rpcUrl rest)
  obtain healthy w1 where h: "checkRPCHealth env rpcUrl w = (healthy, w1)"
    by (cases "checkRPCHealth env rpcUrl w") blast
  then have c: "clientCache w1 = clientCache w"
    by (rule checkRPCHealth_clientCache)
  show ?case
  proof (cases healthy)
    case True
    with Cons.prems h c show ?thesis by simp
  next
    case False
    with Cons.prems h have "firstHealthy env rest w1 = (r, w')" by simp
    with Cons.IH c show ?thesis by simp
  qed
qed

lemma findWorkingRPC_clientCache:
  "findWorkingRPC env chainId w = (r, w') \<Longrightarrow> clientCache w' = clientCache w"
  by (auto simp: findWorkingRPC_def Let_def split: option.splits prod.splits
      dest: firstHealthy_clientCache)

lemma rpcCheckAllNetworks_clientCache:
  "rpcCheckAllNetworks env configs w = (r, w') \<Longrightarrow> clientCache w' = clientCache w"
proof (induction configs arbitrary: w r w')
  case Nil
  then show ?case by simp
next
  case (Cons config rest)
  obtain found w1 where f: "findWorkingRPC env (cfg_chainId config) w = (found, w1)"
    by (cases "findWorkingRPC env (cfg_chainId config) w") blast
  obtain entries w2 where e: "rpcCheckAllNetworks env rest w1 = (entries, w2)"
    by (cases "rpcCheckAllNetworks env rest w1") blast
  from Cons.prems f e have "w' = w2" by (simp add: Let_def)
  with Cons.IH [OF e] findWorkingRPC_clientCache [OF f] show ?case by simp
qed

lemma createClient_sound:
  assumes "createClient env chainId w = (r, w')" and "clientCacheSound w"
  shows "clientCacheSound w'"
proof (cases "clientCache w chainId")
  case (Some client)
  with assms show ?thesis by (simp add: createClient_def)
next
  case None
  show ?thesis
  proof (cases "getNetworkConfig chainId")
    case noConfig: None
    with None assms show ?thesis by (simp add: createClient_def)
  next
    case (Some config)
    obtain found w1 where f: "findWorkingRPC env chainId w = (found, w1)"
      by (cases "findWorkingRPC env chainId w") blast
    then have c: "clientCache w1 = clientCache w"
      by (rule findWorkingRPC_clientCache)
    with assms(2) have s1: "clientCacheSound w1"
      by (simp add: clientCacheSound_def)
    have s2: "clientCacheSound (interact e w1)" for e
      using s1 by (simp add: clientCacheSound_def interact_def)
    have s3: "clientCacheSound ((interact e w1)
                \<lparr>clientCache := (clientCache (interact e w1))(chainId \<mapsto> client)\<rparr>)" for e client
      using s1 Some by (simp add: clientCacheSound_def interact_def)
    from assms(1) None Some f s1 s2 s3 show ?thesis
      by (auto simp: createClient_def Let_def split: sum.splits option.splits if_splits)
  qed
qed

lemma getTokensForChain_clientCache:
  "getTokensForChain env chainId w = (r, w') \<Longrightarrow> clientCache w' = clientCache w"
  by (auto simp: getTokensForChain_def tokensFromFileOrAPI_def loadFromFileCache_def
      isCacheValid_def fetchFromAPI_def saveToFileCache_def dateNow_def interact_def Let_def
      split: option.splits prod.splits sum.splits if_splits cache_file.splits)

lemma calculateNativeUSDValue_clientCache:
  "calculateNativeUSDValue env balance decimals chainId w = (r, w')
     \<Longrightarrow> clientCache w' = clientCache w"
  by (auto simp: calculateNativeUSDValue_def getNativeTokenPrice_def Let_def
      split: prod.splits sum.splits list.splits if_splits
      dest: getTokensForChain_clientCache)

lemma checkNativeBalance_sound:
  assumes "checkNativeBalance env chainId walletAddress w = (r, w')" and "clientCacheSound w"
  shows "clientCacheSound w'"
proof (cases "getNetworkConfig chainId")
  case None
  with assms show ?thesis by (simp add: checkNativeBalance_def)
next
  case (Some networkConfig)
  obtain c w1 where g: "createClient env chainId w = (c, w1)"
    by (cases "createClient env chainId w") blast
  from createClient_sound [OF g assms(2)] have s1: "clientCacheSound w1" .
  have s2: "clientCacheSound (interact e w1)" for e
    using s1 by (simp add: clientCacheSound_def interact_def)
  have s3: "clientCacheSound w3"
    if "calculateNativeUSDValue env balance decimals chainId (interact e w1) = (u, w3)"
    for balance decimals e u w3
    using calculateNativeUSDValue_clientCache [OF that] s2 [of e]
    by (simp add: clientCacheSound_def)
  from assms(1) Some g s1 s2 s3 show ?thesis
    by (auto simp: checkNativeBalance_def getClient_def Let_def
        split: sum.splits option.splits prod.splits)
qed

lemma checkSingleNetwork_sound:
  assumes "checkSingleNetwork env walletAddress chainId w = Some (r, w')"
    and "clientCacheSound w"
  shows "clientCacheSound w'"
proof (cases "getNetworkConfig chainId")
  case None
  with assms show ?thesis by (simp add: checkSingleNetwork_def)
next
  case (Some networkConfig)
  obtain ts w1 where t: "getTokensForChain env chainId w = (ts, w1)"
    by (cases "getTokensForChain env chainId w") blast
  with assms(2) have s1: "clientCacheSound w1"
    using getTokensForChain_clientCache [OF t] by (simp add: clientCacheSound_def)
  obtain nb w2 where n: "checkNativeBalance env chainId walletAddress w1 = (nb, w2)"
    by (cases "checkNativeBalance env chainId walletAddress w1") blast
  from checkNativeBalance_sound [OF n s1] have s2: "clientCacheSound w2" .
  then have s3: "clientCacheSound w4"
    if "dateNow env (w2\<lparr>ticks := k, log := l\<rparr>) = (t, w4)" for k l t w4
    using that by (auto simp: clientCacheSound_def dateNow_def)
  from assms(1) Some t n s1 s2 s3 show ?thesis
    by (auto simp: checkSingleNetwork_def Let_def
        split: sum.splits option.splits prod.splits)
qed

lemma networkPromise_sound:
  assumes "networkPromise env walletAddress chainId w = Some (r, w')"
    and "clientCacheSound w"
  shows "clientCacheSound w'"
proof -
  from assms(1) obtain r1 w1 where
    c: "checkSingleNetwork env walletAddress chainId w = Some (r1, w1)"
    and w': "w' = w1 \<or> w' = snd (dateNow env w1)"
    by (auto simp: networkPromise_def split: option.splits sum.splits prod.splits)
  from checkSingleNetwork_sound [OF c assms(2)] w' show ?thesis
    by (auto simp: clientCacheSound_def dateNow_def)
qed

lemma networkPromises_sound:
  "networkPromises env walletAddress chainIds w = Some (r, w') \<Longrightarrow> clientCacheSound w
     \<Longrightarrow> clientCacheSound w'"
proof (induction chainIds arbitrary: w r)
  case Nil
  then show ?case by simp
next
  case (Cons chainId rest)
  from Cons.prems(1) obtain settled w1 others where
    p: "networkPromise env walletAddress chainId w = Some (settled, w1)"
    and q: "networkPromises env walletAddress rest w1 = Some (others, w')"
    by (auto split: option.splits prod.splits)
  from networkPromise_sound [OF p Cons.prems(2)] have "clientCacheSound w1" .
  with q show ?case by (rule Cons.IH)
qed

lemma checkAllNetworks_sound:
  assumes "checkAllNetworks env walletAddress chainIds w = Some (r, w')"
    and "clientCacheSound w"
  shows "clientCacheSound w'"
proof -
  from assms(1) obtain ids settled w1 where
    p: "networkPromises env walletAddress ids w = Some (settled, w1)"
    and w': "w' = w1 \<or> w' = snd (dateNow env w1)"
    by (auto simp: checkAllNetworks_def Let_def split: option.splits sum.splits prod.splits)
  from networkPromises_sound [OF p assms(2)] w' show ?thesis
    by (auto simp: clientCacheSound_def dateNow_def)
qed

lemma reachable_clientCacheSound:
  "reachable env w \<Longrightarrow> clientCacheSound w"
proof (induction rule: reachable.induct)
  case initial
  show ?case by (simp add: clientCacheSound_def initialWorld_def)
next
  case (after_createClient w chainId r w')
  then show ?case by (blast intro: createClient_sound)
next
  case (after_getClient w chainId r w')
  then show ?case by (auto simp: getClient_def intro: createClient_sound)
next
  case (after_clearCache w)
  show ?case by (simp add: clientCacheSound_def clearCache_def)
next
  case (after_closeAllConnections w)
  show ?case by (simp add: clientCacheSound_def closeAllConnections_def)
next
  case (after_rpcCheckAllNetworks w rs w')
  then show ?case
    using rpcCheckAllNetworks_clientCache [of env networkConfigs w rs w']
    by (simp add: clientCacheSound_def)
next
  case (after_getTokensForChain w chainId ts w')
  then show ?case
    using getTokensForChain_clientCache [of env chainId w ts w']
    by (simp add: clientCacheSound_def)
next
  case (after_tokenClearCache w)
  then show ?case by (simp add: clientCacheSound_def tokenClearCache_def)
next
  case (after_checkNativeBalance w chainId walletAddress nb w')
  then show ?case by (blast intro: checkNativeBalance_sound)
next
  case (after_checkSingleNetwork w walletAddress chainId nr w')
  then show ?case by (blast intro: checkSingleNetwork_sound)
next
  case (after_checkAllNetworks w walletAddress chainIds ar w')
  then show ?case by (blast intro: checkAllNetworks_sound)
qed

lemma getNetworkConfig_5: "getNetworkConfig 5 = None"
  by (simp add: getNetworkConfig_def getNetworkConfigIn_def networkConfigs_def)

text \<open>
  C6. In every reachable state, \<^verbatim>\<open>getClient\<close> (and \<^verbatim>\<open>createClient\<close>) for a chain id that is
  not in the registry fails with the unsupported-network error and leaves the state as it
  was: the client cache and the health cache gain no entry, no request is made and the
  clock is not read.
\<close>

theorem C6_getClient_unsupported:
  assumes "reachable env w" and "getNetworkConfig chainId = None"
  shows "getClient env chainId w = (Inl (UnsupportedNetwork chainId), w)
       \<and> createClient env chainId w = (Inl (UnsupportedNetwork chainId), w)
       \<and> clientCache (snd (getClient env chainId w)) = clientCache w
       \<and> healthCache (snd (getClient env chainId w)) = healthCache w"
proof -
  from assms(1) have "clientCacheSound w" by (rule reachable_clientCacheSound)
  with assms(2) have "clientCache w chainId = None"
    by (cases "clientCache w chainId") (auto simp: clientCacheSound_def)
  with assms(2) show ?thesis
    by (simp add: getClient_def createClient_def)
qed

theorem C6_getClient_unsupported_witness:
  "reachable liveEnv (snd (getClient liveEnv 1 initialWorld))
   \<and> getNetworkConfig 5 = None
   \<and> getClient liveEnv 5 (snd (getClient liveEnv 1 initialWorld))
       = (Inl (UnsupportedNetwork 5), snd (getClient liveEnv 1 initialWorld))"
proof -
  have r: "reachable liveEnv (snd (getClient liveEnv 1 initialWorld))"
    using reachable.after_getClient [OF reachable.initial, of liveEnv 1
        "fst (getClient liveEnv 1 initialWorld)" "snd (getClient liveEnv 1 initialWorld)"]
    by simp
  from C6_getClient_unsupported [OF r getNetworkConfig_5] r getNetworkConfig_5
  show ?thesis by simp
qed

section \<open>Failures of a network in the multi-network query\<close>

lemma createBatches_returns:
  "0 < batchSize \<Longrightarrow> \<exists>batches. createBatches tokens batchSize = Some batches"
  using createBatches_loop_returns [of batchSize tokens 0 "[]"]
  by (auto simp: createBatches_def)

lemma checkTokenBalances_returns:
  "\<exists>balances events. checkTokenBalances env net chainId walletAddress tokens
      = Some (balances, events)"
proof (cases "length tokens = 0")
  case True
  then show ?thesis by (simp add: checkTokenBalances_def)
next
  case False
  have "0 < chooseBatchSize (length tokens)"
    by (simp add: chooseBatchSize_def)
  from createBatches_returns [OF this, of tokens] obtain batches where
    "createBatches tokens (chooseBatchSize (length tokens)) = Some batches" ..
  with False show ?thesis
    by (simp add: checkTokenBalances_def checkTokenBalancesBatched_def Let_def
        split: prod.splits)
qed

lemma checkSingleNetwork_returns:
  "\<exists>r w'. checkSingleNetwork env walletAddress chainId w = Some (r, w')"
proof (cases "getNetworkConfig chainId")
  case None
  then show ?thesis by (simp add: checkSingleNetwork_def)
next
  case (Some networkConfig)
  obtain ts w1 where t: "getTokensForChain env chainId w = (ts, w1)"
    by (cases "getTokensForChain env chainId w") blast
  show ?thesis
  proof (cases ts)
    case (Inl e)
    with Some t show ?thesis by (simp add: checkSingleNetwork_def)
  next
    case (Inr tokens)
    obtain nb w2 where n: "checkNativeBalance env chainId walletAddress w1 = (nb, w2)"
      by (cases "checkNativeBalance env chainId walletAddress w1") blast
    show ?thesis
    proof (cases nb)
      case (Inl e)
      with Some t Inr n show ?thesis by (simp add: checkSingleNetwork_def)
    next
      case native: (Inr nativeBalance)
      from checkTokenBalances_returns
      obtain balances events where
        "checkTokenBalances env (aggregate3 env (ticks w2)) chainId walletAddress tokens
           = Some (balances, events)"
        by blast
      with Some t Inr n native show ?thesis
        by (simp add: checkSingleNetwork_def Let_def split: prod.splits)
    qed
  qed
qed

lemma checkSingleNetwork_unregistered:
  "getNetworkConfig chainId = None \<Longrightarrow>
     checkSingleNetwork env walletAddress chainId w = Some (Inl (UnsupportedNetwork chainId), w)"
  by (simp add: checkSingleNetwork_def)

lemma checkSingleNetwork_chainId:
  "checkSingleNetwork env walletAddress chainId w = Some (Inr n, w') \<Longrightarrow> net_chainId n = chainId"
  by (auto simp: checkSingleNetwork_def Let_def
      split: option.splits prod.splits sum.splits)

lemma zeroValued_placeholder:
  "zeroValued (placeholderResult walletAddress chainId now)"
  by (simp add: zeroValued_def placeholderResult_def Let_def)

lemma networkPromise_caught:
  "checkSingleNetwork env walletAddress chainId w = Some (Inl e, w1) \<Longrightarrow>
     networkPromise env walletAddress chainId w
       = Some (Inr (placeholderResult walletAddress chainId (clock env (ticks w1))),
               w1\<lparr>ticks := Suc (ticks w1)\<rparr>)"
  by (simp add: networkPromise_def dateNow_def)

lemma networkPromise_resolves:
  "\<exists>n w'. networkPromise env walletAddress chainId w = Some (Inr n, w')
      \<and> net_chainId n = chainId
      \<and> (getNetworkConfig chainId = None \<longrightarrow> zeroValued n)
      \<and> (zeroValued n
           \<or> checkSingleNetwork env walletAddress chainId w = Some (Inr n, w'))"
proof -
  from checkSingleNetwork_returns obtain r w1 where
    c: "checkSingleNetwork env walletAddress chainId w = Some (r, w1)"
    by blast
  show ?thesis
  proof (cases r)
    case (Inl e)
    with c have "networkPromise env walletAddress chainId w
       = Some (Inr (placeholderResult walletAddress chainId (clock env (ticks w1))),
               w1\<lparr>ticks := Suc (ticks w1)\<rparr>)"
      by (simp add: networkPromise_caught)
    moreover have "net_chainId
        (placeholderResult walletAddress chainId (clock env (ticks w1)) :: 'a NetworkBalanceResult)
          = chainId"
      by (simp add: placeholderResult_def Let_def)
    ultimately show ?thesis
      using zeroValued_placeholder by blast
  next
    case (Inr n)
    with c have p: "networkPromise env walletAddress chainId w = Some (Inr n, w1)"
      by (simp add: networkPromise_def)
    from c Inr have "getNetworkConfig chainId \<noteq> None"
      using checkSingleNetwork_unregistered [of chainId env walletAddress w] by auto
    with p c Inr checkSingleNetwork_chainId [of env walletAddress chainId w n w1]
    show ?thesis by auto
  qed
qed

lemma networkPromises_resolve:
  "\<exists>ns w'. networkPromises env walletAddress chainIds w = Some (map Inr ns, w')
      \<and> map net_chainId ns = chainIds
      \<and> (\<forall>n \<in> set ns.
            (getNetworkConfig (net_chainId n) = None \<longrightarrow> zeroValued n)
            \<and> (zeroValued n
                \<or> (\<exists>w0 w1. checkSingleNetwork env walletAddress (net_chainId n) w0
                              = Some (Inr n, w1))))"
proof (induction chainIds arbitrary: w)
  case Nil
  show ?case by simp
next
  case (Cons chainId rest)
  from networkPromise_resolves [of env walletAddress chainId w]
  obtain n w1 where n:
    "networkPromise env walletAddress chainId w = Some (Inr n, w1)"
    "net_chainId n = chainId"
    "getNetworkConfig chainId = None \<longrightarrow> zeroValued n"
    "zeroValued n \<or> checkSingleNetwork env walletAddress chainId w = Some (Inr n, w1)"
    by (elim exE conjE) (rule that; assumption)
  from Cons.IH [of w1] obtain ns w2 where ns:
    "networkPromises env walletAddress rest w1 = Some (map Inr ns, w2)"
    "map net_chainId ns = rest"
    "\<forall>n \<in> set ns.
        (getNetworkConfig (net_chainId n) = None \<longrightarrow> zeroValued n)
        \<and> (zeroValued n
            \<or> (\<exists>w0 w1. checkSingleNetwork env walletAddress (net_chainId n) w0
                          = Some (Inr n, w1)))"
    by (elim exE conjE) (rule that; assumption)
  from n(1) ns(1)
  have "networkPromises env walletAddress (chainId # rest) w = Some (map Inr (n # ns), w2)"
    by simp
  moreover from n(2) ns(2) have "map net_chainId (n # ns) = chainId # rest"
    by simp
  moreover from n(2,3,4) ns(3) have "\<forall>m \<in> set (n # ns).
        (getNetworkConfig (net_chainId m) = None \<longrightarrow> zeroValued m)
        \<and> (zeroValued m
            \<or> (\<exists>w0 w1. checkSingleNetwork env walletAddress (net_chainId m) w0
                          = Some (Inr m, w1)))"
    by auto
  ultimately show ?case
    by - (rule exI [of _ "n # ns"], rule exI [of _ w2], intro conjI, assumption+)
qed

lemma promiseAll_resolved: "promiseAll (map Inr ns) = Inr ns"
  by (induction ns) simp_all



section \<open>Failure of the token catalog\<close>

lemma getTokensForChain_failure:
  "getTokensForChain env chainId w = (Inl e, w1) \<Longrightarrow>
     e = CatalogUnavailable \<and> log w1 = log w @ [CatalogFetch]"
  by (auto simp: getTokensForChain_def tokensFromFileOrAPI_def loadFromFileCache_def
      isCacheValid_def fetchFromAPI_def saveToFileCache_def dateNow_def interact_def Let_def
      split: option.splits prod.splits sum.splits if_splits cache_file.splits)


lemma tokens_live:
  "getTokensForChain liveEnv 1 initialWorld
     = (Inr [], initialWorld\<lparr>ticks := 1, log := [CatalogFetch]\<rparr>)"
  by (simp add: getTokensForChain_def tokensFromFileOrAPI_def loadFromFileCache_def
      fetchFromAPI_def interact_def liveEnv_def initialWorld_def)

lemma format_5_18: "formatNativeBalance pw 5 18 = Inr ''0.000000000000000005''"
  by (simp add: formatNativeBalance_def formatTokenBalance_def bigint_pow10_def
      signed_divide_int_def signed_modulo_int_def toString_eval padStart0_def
      trimTrailingZeros_def eval_nat_numeral)



lemma getTokensForChain_download_fails:
  assumes "beforeDownload env chainId w = Some wd" and "catalogFetch env (ticks wd) = None"
  shows "getTokensForChain env chainId w = (Inl CatalogUnavailable, interact CatalogFetch wd)"
  using assms
  by (auto simp: beforeDownload_def getTokensForChain_def tokensFromFileOrAPI_def
      fetchFromAPI_def Let_def
      split: option.splits prod.splits if_splits)


lemma getTokensForChain_fails_iff:
  "getTokensForChain env chainId w = (Inl e, w1) \<longleftrightarrow>
     (\<exists>wd. beforeDownload env chainId w = Some wd \<and> catalogFetch env (ticks wd) = None
        \<and> e = CatalogUnavailable \<and> w1 = interact CatalogFetch wd)"
proof
  assume "\<exists>wd. beforeDownload env chainId w = Some wd \<and> catalogFetch env (ticks wd) = None
        \<and> e = CatalogUnavailable \<and> w1 = interact CatalogFetch wd"
  then show "getTokensForChain env chainId w = (Inl e, w1)"
    using getTokensForChain_download_fails by blast
next
  assume "getTokensForChain env chainId w = (Inl e, w1)"
  then show "\<exists>wd. beforeDownload env chainId w = Some wd \<and> catalogFetch env (ticks wd) = None
        \<and> e = CatalogUnavailable \<and> w1 = interact CatalogFetch wd"
    by (auto simp: beforeDownload_def getTokensForChain_def tokensFromFileOrAPI_def
        fetchFromAPI_def saveToFileCache_def dateNow_def Let_def
        split: option.splits prod.splits sum.splits if_splits)
qed





text \<open>
  The same with an expired entry in the memory cache: the entry is not served, the download
  is attempted, and its failure is raised although tokens of the chain are in the cache.
\<close>

lemma catalog_failure_expired_cache:
  "getTokensForChain catalogDownEnv 1
     (initialWorld\<lparr>memoryCache := [''tokens_1'' \<mapsto>
        \<lparr>cd_data = exampleTokens, cd_timestamp = - 1800000, cd_ttl = 1800000\<rparr>]\<rparr>)
   = (Inl CatalogUnavailable,
      initialWorld\<lparr>memoryCache := [''tokens_1'' \<mapsto>
        \<lparr>cd_data = exampleTokens, cd_timestamp = - 1800000, cd_ttl = 1800000\<rparr>],
        ticks := 2, log := [CatalogFetch]\<rparr>)"
proof -
  let ?w = "initialWorld\<lparr>memoryCache := [''tokens_1'' \<mapsto>
        \<lparr>cd_data = exampleTokens, cd_timestamp = - 1800000, cd_ttl = 1800000\<rparr>]\<rparr>"
  have b: "beforeDownload catalogDownEnv 1 ?w = Some (?w\<lparr>ticks := 1\<rparr>)"
    by (simp add: beforeDownload_def isCacheValid_def dateNow_def loadFromFileCache_def
        toString_eval catalogDownEnv_def liveEnv_def initialWorld_def)
  have f: "catalogFetch catalogDownEnv (ticks (?w\<lparr>ticks := 1\<rparr>)) = None"
    by (simp add: catalogDownEnv_def liveEnv_def)
  from getTokensForChain_download_fails [OF b f] show ?thesis
    by (simp add: interact_def initialWorld_def)
qed

section \<open>Surfaced records have a positive balance\<close>

lemma checkSingleNetwork_records:
  "checkSingleNetwork env walletAddress chainId w = Some (Inr n, w')
     \<Longrightarrow> \<forall>r \<in> set (net_tokenBalances n). 0 < bal_balance r"
  by (auto simp: checkSingleNetwork_def Let_def
      split: option.splits prod.splits sum.splits)

lemma checkAllNetworks_records:
  assumes "checkAllNetworks env walletAddress chainIds w = Some (Inr allResult, w')"
  shows "\<forall>n \<in> set (all_networks allResult). \<forall>r \<in> set (net_tokenBalances n). 0 < bal_balance r"
proof -
  let ?ids = "case chainIds of None \<Rightarrow> getSupportedChainIds | Some given \<Rightarrow> given"
  from networkPromises_resolve [of env walletAddress ?ids w]
  obtain ns w2 where ns:
    "networkPromises env walletAddress ?ids w = Some (map Inr ns, w2)"
    "map net_chainId ns = ?ids"
    "\<forall>n \<in> set ns.
        (getNetworkConfig (net_chainId n) = None \<longrightarrow> zeroValued n)
        \<and> (zeroValued n
            \<or> (\<exists>w0 w1. checkSingleNetwork env walletAddress (net_chainId n) w0
                          = Some (Inr n, w1)))"
    by (elim exE conjE) (rule that; assumption)
  from ns(1) assms have "all_networks allResult = ns"
    by (auto simp: checkAllNetworks_def Let_def promiseAll_resolved dateNow_def)
  moreover have "\<forall>r \<in> set (net_tokenBalances n). 0 < bal_balance r" if "n \<in> set ns" for n
  proof -
    from ns(3) that consider "zeroValued n"
      | w0 w1 where "checkSingleNetwork env walletAddress (net_chainId n) w0 = Some (Inr n, w1)"
      by auto
    then show ?thesis
    proof cases
      case 1
      then show ?thesis by (simp add: zeroValued_def)
    next
      case 2
      then show ?thesis by (rule checkSingleNetwork_records)
    qed
  qed
  ultimately show ?thesis by simp
qed

lemma filter_take_length: "length (filter P (take n xs)) \<le> length (filter P xs)"
proof -
  have "length (filter P xs) = length (filter P (take n xs)) + length (filter P (drop n xs))"
    by (metis append_take_drop_id filter_append length_append)
  then show ?thesis by simp
qed

text \<open>Composition of the single-network query and of the query over one chain.\<close>

lemma checkSingleNetwork_compose:
  assumes "getNetworkConfig chainId = Some networkConfig"
    and "getTokensForChain env chainId w = (Inr tokens, w1)"
    and "checkNativeBalance env chainId walletAddress w1 = (Inr nativeBalance, w2)"
    and "checkTokenBalances env (aggregate3 env (ticks w2)) chainId walletAddress tokens
           = Some (tokenBalances, events)"
  shows "\<exists>n w'. checkSingleNetwork env walletAddress chainId w = Some (Inr n, w')
           \<and> net_tokenBalances n = filter (\<lambda>token. 0 < bal_balance token) tokenBalances
           \<and> net_nativeBalance n = nativeBalance"
  using assms by (simp add: checkSingleNetwork_def Let_def dateNow_def)

lemma checkAllNetworks_single:
  assumes "checkSingleNetwork env walletAddress chainId w = Some (Inr n, w')"
  shows "\<exists>a w''. checkAllNetworks env walletAddress (Some [chainId]) w = Some (Inr a, w'')
           \<and> all_networks a = [n]"
  using assms by (simp add: checkAllNetworks_def networkPromise_def Let_def dateNow_def)

text \<open>The example batch, evaluated.\<close>

lemma exampleResults_nth:
  "length exampleResults = 3"
  "exampleResults ! 0 = \<lparr>res_success = True, res_returnData = ''0x05''\<rparr>"
  "exampleResults ! 1 = \<lparr>res_success = True, res_returnData = ''0x00''\<rparr>"
  "exampleResults ! 2 = \<lparr>res_success = False, res_returnData = ''0x''\<rparr>"
  by (simp_all add: exampleResults_def)

lemma exampleTokens_nth:
  "length exampleTokens = 3"
  "exampleTokens ! 0 = exampleToken ''0xa''"
  "exampleTokens ! 1 = exampleToken ''0xb''"
  "exampleTokens ! 2 = exampleToken ''0xc''"
  by (simp_all add: exampleTokens_def)

lemma example_record_a:
  "balanceRecord tokenEnv (exampleToken ''0xa'') \<lparr>res_success = True, res_returnData = ''0x05''\<rparr>
     = Inr exampleRecord"
  by (simp add: balanceRecord_def tokenEnv_def liveEnv_def exampleToken_def exampleRecord_def
      formatTokenBalance_def bigint_pow10_def signed_divide_int_def signed_modulo_int_def
      toString_eval calculateUSDValue_def)

lemma example_record_b:
  "balanceRecord tokenEnv (exampleToken ''0xb'') \<lparr>res_success = True, res_returnData = ''0x00''\<rparr>
     = Inr (exampleRecord\<lparr>bal_address := ''0xb'', bal_balance := 0, bal_balanceFormatted := ''0''\<rparr>)"
  by (simp add: balanceRecord_def tokenEnv_def liveEnv_def exampleToken_def exampleRecord_def
      formatTokenBalance_def bigint_pow10_def signed_divide_int_def signed_modulo_int_def
      toString_eval calculateUSDValue_def)

lemma example_balanceLoop:
  "balanceLoop tokenEnv exampleTokens exampleResults 0 []
     = [exampleRecord,
        exampleRecord\<lparr>bal_address := ''0xb'', bal_balance := 0, bal_balanceFormatted := ''0''\<rparr>]"
proof -
  let ?loop = "balanceLoop tokenEnv exampleTokens exampleResults"
  have s3: "?loop 3 acc = acc" for acc
    by (subst balanceLoop.simps) (simp add: exampleTokens_nth)
  have s2: "?loop 2 acc = acc" for acc
    by (subst balanceLoop.simps) (simp add: exampleTokens_nth exampleResults_nth s3)
  have s1: "?loop 1 acc = acc @ [exampleRecord\<lparr>bal_address := ''0xb'', bal_balance := 0,
                                    bal_balanceFormatted := ''0''\<rparr>]" for acc
    by (subst balanceLoop.simps)
       (simp del: One_nat_def add: exampleTokens_nth exampleResults_nth s2 example_record_b)
  show ?thesis
    by (subst balanceLoop.simps)
       (simp del: One_nat_def add: exampleTokens_nth exampleResults_nth s1 example_record_a)
qed

lemma example_execute:
  "executeMulticallWithRPC tokenEnv 1 ''0xw'' exampleTokens rpcUrl (Some exampleResults)
     = Inr [exampleRecord]"
  by (simp add: executeMulticallWithRPC_def executeMulticall_def getClientWithRPC_def
      getNetworkConfig_1 example_balanceLoop exampleRecord_def)

lemma example_rotation:
  assumes "rotatingEndpoint rpcUrls 1 = Some rpcUrl" and "rpcUrl \<noteq> []"
  shows "checkSingleBatchWithRPCRotation tokenEnv (\<lambda>attempt. Some exampleResults) 1 ''0xw''
           exampleTokens rpcUrls 3 = (Inr [exampleRecord], [Attempt 1 rpcUrl])"
  unfolding checkSingleBatchWithRPCRotation_def
  by (subst rotationLoop.simps) (simp del: One_nat_def add: assms example_execute)

lemma example_batches: "createBatches exampleTokens 100 = Some [exampleTokens]"
proof -
  have "createBatches_loop exampleTokens 100 100 [exampleTokens] = Some [exampleTokens]"
    by (subst createBatches_loop.simps) (simp add: exampleTokens_nth)
  then show ?thesis
    unfolding createBatches_def
    by (subst createBatches_loop.simps) (simp add: exampleTokens_nth slice_def)
qed

lemma example_checkTokenBalances:
  "checkTokenBalances tokenEnv (aggregate3 tokenEnv k) 1 ''0xw'' exampleTokens
     = Some ([exampleRecord], [Attempt 1 ''https://ethereum-rpc.publicnode.com''])"
proof -
  let ?urls = "cfg_rpcUrls (networkConfigs ! 0)"
  let ?net = "\<lambda>(batch::nat) (attempt::nat). Some exampleResults"
  have net: "aggregate3 tokenEnv k = ?net"
    by (simp add: tokenEnv_def liveEnv_def)
  have url: "rotatingEndpoint ?urls 1 = Some ''https://ethereum-rpc.publicnode.com''"
    by (simp add: rotatingEndpoint_def networkConfigs_def)
  have rot: "checkSingleBatchWithRPCRotation tokenEnv (?net 0) 1 ''0xw'' exampleTokens ?urls 3
           = (Inr [exampleRecord], [Attempt 1 ''https://ethereum-rpc.publicnode.com''])"
    by (rule example_rotation [OF url]) simp
  have g6: "groupLoop tokenEnv ?net 1 ''0xw'' ?urls [exampleTokens] 6 = ([], [])"
    by (subst groupLoop.simps) simp
  have g0: "groupLoop tokenEnv ?net 1 ''0xw'' ?urls [exampleTokens] 0
              = ([ [exampleRecord] ], [Attempt 1 ''https://ethereum-rpc.publicnode.com''])"
    by (subst groupLoop.simps)
       (simp add: MAX_CONCURRENT_BATCHES_def slice_def g6 runBatch_def rot)
  have "chooseBatchSize (length exampleTokens) = 100"
    by (simp add: chooseBatchSize_def exampleTokens_nth)
  then show ?thesis
    by (simp add: checkTokenBalances_def checkTokenBalancesBatched_def exampleTokens_nth
        example_batches getNetworkConfig_1 net g0)
qed

lemma example_tokens:
  "fst (getTokensForChain tokenEnv 1 initialWorld) = Inr exampleTokens"
  by (simp add: getTokensForChain_def tokensFromFileOrAPI_def loadFromFileCache_def
      fetchFromAPI_def interact_def saveToFileCache_def dateNow_def tokenEnv_def liveEnv_def
      initialWorld_def toString_eval exampleTokens_nth Let_def)

lemma example_native:
  "fst (checkNativeBalance tokenEnv 1 ''0xw'' (snd (getTokensForChain tokenEnv 1 initialWorld)))
     = Inr \<lparr>nat_balance = 5, nat_balanceFormatted = ''0.000000000000000005'',
            nat_symbol = ''ETH'', nat_usdValue = 0\<rparr>"
  by (simp add: checkNativeBalance_def getClient_def createClient_def findWorkingRPC_def
      getNetworkConfig_1 networkConfigs_def checkRPCHealth_def probeRPC_eq interact_def
      format_5_18 calculateNativeUSDValue_def getNativeTokenPrice_def
      getTokensForChain_def tokensFromFileOrAPI_def loadFromFileCache_def isCacheValid_def
      fetchFromAPI_def saveToFileCache_def dateNow_def tokenEnv_def liveEnv_def
      initialWorld_def toString_eval exampleTokens_def CACHE_DURATION_def Let_def)

lemma example_checkSingleNetwork:
  "\<exists>n w'. checkSingleNetwork tokenEnv ''0xw'' 1 initialWorld = Some (Inr n, w')
      \<and> net_tokenBalances n = [exampleRecord]"
proof -
  let ?w1 = "snd (getTokensForChain tokenEnv 1 initialWorld)"
  let ?w2 = "snd (checkNativeBalance tokenEnv 1 ''0xw'' ?w1)"
  have t: "getTokensForChain tokenEnv 1 initialWorld = (Inr exampleTokens, ?w1)"
    using example_tokens by (simp add: prod_eq_iff)
  have n: "checkNativeBalance tokenEnv 1 ''0xw'' ?w1
             = (Inr \<lparr>nat_balance = 5, nat_balanceFormatted = ''0.000000000000000005'',
                     nat_symbol = ''ETH'', nat_usdValue = 0\<rparr>, ?w2)"
    using example_native by (simp add: prod_eq_iff)
  from checkSingleNetwork_compose [OF getNetworkConfig_1 t n
      example_checkTokenBalances [of "ticks ?w2"]]
  show ?thesis
    by (auto simp: exampleRecord_def)
qed

text \<open>
  C3. From a batch of \<open>N\<close> tokens and an aggregate response, the batch executor produces at
  most as many records as there are successful results among the first \<open>N\<close> results of the
  response, hence at most \<open>K\<close> when \<open>K\<close> results of the response report success, and every
  record it returns has a raw balance greater than zero. The same holds for every record
  returned by \<^verbatim>\<open>checkTokenBalances\<close>, for every token record of the result of the
  single-network query (which filters once more) and for every token record of every
  network of the result of the multi-network query.
\<close>

theorem C3_records_bounded_and_positive:
  fixes env :: "('u::{zero,ord,times,plus}) env"
  shows "(executeMulticallWithRPC env chainId walletAddress tokens rpcUrl (Some results)
            = Inr records \<longrightarrow>
            length records \<le> length (filter res_success (take (length tokens) results))
            \<and> length (filter res_success (take (length tokens) results))
                 \<le> length (filter res_success results)
            \<and> (\<forall>r \<in> set records. 0 < bal_balance r))
       \<and> (checkTokenBalances env net chainId walletAddress batchTokens
            = Some (balances, events) \<longrightarrow>
            (\<forall>r \<in> set balances. 0 < bal_balance r))
       \<and> (checkSingleNetwork env walletAddress chainId w = Some (Inr networkResult, w') \<longrightarrow>
            (\<forall>r \<in> set (net_tokenBalances networkResult). 0 < bal_balance r))
       \<and> (checkAllNetworks env walletAddress chainIds w = Some (Inr allResult, w'') \<longrightarrow>
            (\<forall>n \<in> set (all_networks allResult).
               \<forall>r \<in> set (net_tokenBalances n). 0 < bal_balance r))"
proof (intro conjI impI)
  assume a: "executeMulticallWithRPC env chainId walletAddress tokens rpcUrl (Some results)
            = Inr records"
  from executeMulticallWithRPC_records(2) [OF a refl]
  show "length records \<le> length (filter res_success (take (length tokens) results))" .
  show "length (filter res_success (take (length tokens) results))
          \<le> length (filter res_success results)"
    by (rule filter_take_length)
  from executeMulticallWithRPC_records(1) [OF a]
  show "\<forall>r \<in> set records. 0 < bal_balance r" .
next
  assume "checkTokenBalances env net chainId walletAddress batchTokens = Some (balances, events)"
  then show "\<forall>r \<in> set balances. 0 < bal_balance r"
    by (rule checkTokenBalances_records)
next
  assume "checkSingleNetwork env walletAddress chainId w = Some (Inr networkResult, w')"
  then show "\<forall>r \<in> set (net_tokenBalances networkResult). 0 < bal_balance r"
    by (rule checkSingleNetwork_records)
next
  assume "checkAllNetworks env walletAddress chainIds w = Some (Inr allResult, w'')"
  then show "\<forall>n \<in> set (all_networks allResult).
               \<forall>r \<in> set (net_tokenBalances n). 0 < bal_balance r"
    by (rule checkAllNetworks_records)
qed

theorem C3_records_bounded_and_positive_witness:
  "executeMulticallWithRPC tokenEnv 1 ''0xw'' exampleTokens ''u'' (Some exampleResults)
     = Inr [exampleRecord]
   \<and> length exampleTokens = 3
   \<and> length (filter res_success exampleResults) = 2
   \<and> length [exampleRecord] \<le> length (filter res_success exampleResults)
   \<and> 0 < bal_balance exampleRecord
   \<and> checkTokenBalances tokenEnv (aggregate3 tokenEnv 0) 1 ''0xw'' exampleTokens
       = Some ([exampleRecord], [Attempt 1 ''https://ethereum-rpc.publicnode.com''])
   \<and> (\<exists>n w'. checkSingleNetwork tokenEnv ''0xw'' 1 initialWorld = Some (Inr n, w')
         \<and> net_tokenBalances n = [exampleRecord])
   \<and> (\<exists>a w''. checkAllNetworks tokenEnv ''0xw'' (Some [1]) initialWorld = Some (Inr a, w'')
         \<and> map net_tokenBalances (all_networks a) = [ [exampleRecord] ])"
proof -
  from example_checkSingleNetwork obtain n w' where
    n: "checkSingleNetwork tokenEnv ''0xw'' 1 initialWorld = Some (Inr n, w')"
       "net_tokenBalances n = [exampleRecord]"
    by (elim exE conjE) (rule that; assumption)
  from checkAllNetworks_single [OF n(1)] obtain a w'' where
    a: "checkAllNetworks tokenEnv ''0xw'' (Some [1]) initialWorld = Some (Inr a, w'')"
       "all_networks a = [n]"
    by (elim exE conjE) (rule that; assumption)
  note th = C3_records_bounded_and_positive [of tokenEnv 1 "''0xw''" exampleTokens "''u''"
      exampleResults "[exampleRecord]" "aggregate3 tokenEnv 0" exampleTokens "[exampleRecord]"
      "[Attempt 1 ''https://ethereum-rpc.publicnode.com'']" initialWorld n w' "Some [1]" a w'']
  from th example_execute [of "''u''"]
  have bound: "length [exampleRecord]
                 \<le> length (filter res_success (take (length exampleTokens) exampleResults))"
    and "\<forall>r \<in> set [exampleRecord]. 0 < bal_balance r"
    by simp_all
  then have pos: "0 < bal_balance exampleRecord"
    by simp
  from th example_checkTokenBalances [of 0]
  have "\<forall>r \<in> set [exampleRecord]. 0 < bal_balance r"
    by simp
  from th n(1) have "\<forall>r \<in> set (net_tokenBalances n). 0 < bal_balance r"
    by simp
  from th a(1) have "\<forall>m \<in> set (all_networks a). \<forall>r \<in> set (net_tokenBalances m). 0 < bal_balance r"
    by simp
  have k: "length (filter res_success exampleResults) = 2"
    by (simp add: exampleResults_def)
  from n have single: "\<exists>n w'. checkSingleNetwork tokenEnv ''0xw'' 1 initialWorld = Some (Inr n, w')
         \<and> net_tokenBalances n = [exampleRecord]"
    by (intro exI [of _ n] exI [of _ w'] conjI)
  from a n(2)
  have all: "\<exists>a w''. checkAllNetworks tokenEnv ''0xw'' (Some [1]) initialWorld = Some (Inr a, w'')
         \<and> map net_tokenBalances (all_networks a) = [ [exampleRecord] ]"
    by (intro exI [of _ a] exI [of _ w''] conjI) simp_all
  from example_execute [of "''u''"] exampleTokens_nth(1) k pos example_checkTokenBalances [of 0]
    single all
  show ?thesis by simp
qed

end
